theory Spec2Isabelle
  imports Main
begin

section \<open>JavaScript values the route handlers read and write\<close>

text \<open>
  The two route handlers \<^verbatim>\<open>src/app/api/chat/route.ts\<close> and
  \<^verbatim>\<open>src/app/api/competitive-research/route.ts\<close> have the same shape and differ in
  their string constants and in the \<^verbatim>\<open>model\<close> option. They are embedded once, with the
  endpoint as a parameter. (The third copy of the chat handler in the sources is the chat
  handler calling \<^verbatim>\<open>Sentry.metrics\<close> and \<^verbatim>\<open>Sentry.logger\<close> directly.)

  Strings are lists of 8-bit characters. Wall-clock readings (\<^verbatim>\<open>Date.now()\<close>) are
  not modelled: where the handler reports a duration, the model keeps the report and leaves
  the number out. The working directory option \<^verbatim>\<open>cwd: process.cwd()\<close> is left out of
  the options handed to the engine for the same reason.
\<close>

datatype endpoint = Chat | CompetitiveResearch

definition LF :: char where
  "LF = CHR 0x0A"

text \<open>
  A JavaScript number is carried as the text that \<^verbatim>\<open>Number.prototype.toString\<close> gives
  for it when it is finite; the handlers only ever print numbers.
\<close>

datatype number = Finite string | NaN | PosInfinity | NegInfinity

text \<open>
  A parsed JSON value. An object is the list of its own properties in insertion order,
  each key once.
\<close>

datatype json =
    JNull
  | JBool bool
  | JNumber number
  | JString string
  | JArray "json list"
  | JObject "(string \<times> json) list"

text \<open>
  What a \<^verbatim>\<open>catch\<close> clause can receive: a \<^verbatim>\<open>TypeError\<close> raised by the engine
  itself (reading a property of \<^verbatim>\<open>null\<close> or \<^verbatim>\<open>undefined\<close>, calling something that
  is not a function; its message is the engine's own), another \<^verbatim>\<open>Error\<close> object with its
  message, or a value that is not an \<^verbatim>\<open>Error\<close>.
\<close>

datatype thrown = TypeError | ErrorObject string | OtherValue

text \<open>
  Property access \<^verbatim>\<open>v.k\<close> on a value that is neither \<^verbatim>\<open>null\<close> nor
  \<^verbatim>\<open>undefined\<close>; \<open>None\<close> is \<^verbatim>\<open>undefined\<close>. Only the keys
  \<^verbatim>\<open>messages\<close>, \<^verbatim>\<open>model\<close>, \<^verbatim>\<open>role\<close> and \<^verbatim>\<open>content\<close> are ever read, and
  no primitive or array has them.
\<close>

fun property :: "json \<Rightarrow> string \<Rightarrow> json option" where
  "property (JObject kvs) k = map_of kvs k"
| "property _ k = None"

text \<open>Truthiness, as \<^verbatim>\<open>!v\<close> and \<^verbatim>\<open>v || d\<close> test it.\<close>

fun truthy :: "json option \<Rightarrow> bool" where
  "truthy None = False"
| "truthy (Some JNull) = False"
| "truthy (Some (JBool b)) = b"
| "truthy (Some (JNumber n)) =
     (case n of Finite t \<Rightarrow> t \<noteq> ''0'' | NaN \<Rightarrow> False | PosInfinity \<Rightarrow> True | NegInfinity \<Rightarrow> True)"
| "truthy (Some (JString s)) = (s \<noteq> [])"
| "truthy (Some (JArray xs)) = True"
| "truthy (Some (JObject kvs)) = True"

fun isArray :: "json option \<Rightarrow> bool" where
  "isArray (Some (JArray xs)) = True"
| "isArray _ = False"

fun elements :: "json option \<Rightarrow> json list" where
  "elements (Some (JArray xs)) = xs"
| "elements _ = []"

text \<open>\<^verbatim>\<open>Array.prototype.join\<close> on strings.\<close>

fun join :: "string \<Rightarrow> string list \<Rightarrow> string" where
  "join sep [] = []"
| "join sep [x] = x"
| "join sep (x # y # ys) = x @ sep @ join sep (y # ys)"

text \<open>
  String conversion in a template literal \<^verbatim>\<open>`${v}`\<close>; \<open>None\<close> is a \<^verbatim>\<open>TypeError\<close>.
  An array prints its elements joined by commas, with \<^verbatim>\<open>null\<close> elements empty. An object
  without an own \<^verbatim>\<open>toString\<close> key prints as \<^verbatim>\<open>[object Object]\<close>. An object with an
  own \<^verbatim>\<open>toString\<close> key cannot be converted: the value of the key comes from JSON and is
  not callable, and \<^verbatim>\<open>valueOf\<close> (its own, not callable either, or the inherited one, which
  gives the object back) yields no primitive, so the conversion throws.
\<close>

fun ToString :: "json \<Rightarrow> string option" where
  "ToString JNull = Some ''null''"
| "ToString (JBool b) = Some (if b then ''true'' else ''false'')"
| "ToString (JNumber n) =
     Some (case n of Finite t \<Rightarrow> t | NaN \<Rightarrow> ''NaN'' | PosInfinity \<Rightarrow> ''Infinity''
           | NegInfinity \<Rightarrow> ''-Infinity'')"
| "ToString (JString s) = Some s"
| "ToString (JArray xs) =
     map_option (join '','')
       (those (map (\<lambda>x. case x of JNull \<Rightarrow> Some [] | _ \<Rightarrow> ToString x) xs))"
| "ToString (JObject kvs) =
     (if map_of kvs ''toString'' = None then Some ''[object Object]'' else None)"

fun template :: "json option \<Rightarrow> string option" where
  "template None = Some ''undefined''"
| "template (Some v) = ToString v"

text \<open>\<^verbatim>\<open>n.toString()\<close> for an array length.\<close>

fun decimal :: "nat \<Rightarrow> string" where
  "decimal n =
     (if n < 10 then [char_of (48 + n)] else decimal (n div 10) @ [char_of (48 + n mod 10)])"

declare decimal.simps [simp del]

subsection \<open>\<^verbatim>\<open>JSON.stringify\<close>\<close>

definition hex_digit :: "nat \<Rightarrow> char" where
  "hex_digit n = ''0123456789abcdef'' ! n"

definition escape :: "char \<Rightarrow> string" where
  "escape c =
     (if c = CHR 0x22 then [CHR 0x5C, CHR 0x22]
      else if c = CHR 0x5C then [CHR 0x5C, CHR 0x5C]
      else if c = CHR 0x08 then [CHR 0x5C, CHR ''b'']
      else if c = CHR 0x0C then [CHR 0x5C, CHR ''f'']
      else if c = CHR 0x0A then [CHR 0x5C, CHR ''n'']
      else if c = CHR 0x0D then [CHR 0x5C, CHR ''r'']
      else if c = CHR 0x09 then [CHR 0x5C, CHR ''t'']
      else if (of_char c :: nat) < 32
        then [CHR 0x5C, CHR ''u'', CHR ''0'', CHR ''0'',
              hex_digit (of_char c div 16), hex_digit (of_char c mod 16)]
      else [c])"

definition QuoteJSONString :: "string \<Rightarrow> string" where
  "QuoteJSONString s = [CHR 0x22] @ concat (map escape s) @ [CHR 0x22]"

fun JSON_stringify :: "json \<Rightarrow> string" where
  "JSON_stringify JNull = ''null''"
| "JSON_stringify (JBool b) = (if b then ''true'' else ''false'')"
| "JSON_stringify (JNumber n) = (case n of Finite t \<Rightarrow> t | _ \<Rightarrow> ''null'')"
| "JSON_stringify (JString s) = QuoteJSONString s"
| "JSON_stringify (JArray xs) = ''['' @ join '','' (map JSON_stringify xs) @ '']''"
| "JSON_stringify (JObject kvs) =
     ''{'' @ join '','' (map (\<lambda>(k, v). QuoteJSONString k @ '':'' @ JSON_stringify v) kvs) @ ''}''"

section \<open>Telemetry\<close>

text \<open>
  The calls made on \<^verbatim>\<open>sentryMetrics\<close> and \<^verbatim>\<open>sentryLogger\<close>, in the order they are
  made. Both wrappers swallow every failure of the sink, so a call never changes the
  handler's control flow. A log call carries its level, its message, its \<^verbatim>\<open>context\<close>
  and, when the handler passes \<^verbatim>\<open>error:\<close>, the value that was caught (which the handler
  wraps in a new \<^verbatim>\<open>Error\<close> when it is not one).
\<close>

datatype log_level = LogDebug | LogInfo | LogWarn | LogError

datatype context_value =
    CBool bool
  | CNat nat
  | CString string
  | CStrings "string list"
  | CJson json
  | CTypeErrorMessage
  | CSeconds

datatype metric_value = Count nat | Reading number | ClockSeconds

type_synonym tags = "(string \<times> string) list"

datatype telemetry_call =
    Increment string nat tags
  | Gauge string metric_value tags
  | Timing string metric_value tags
  | Log log_level string "(string \<times> context_value) list" "thrown option"

definition metric :: "endpoint \<Rightarrow> string \<Rightarrow> string" where
  "metric e name =
     (case e of Chat \<Rightarrow> ''chat'' | CompetitiveResearch \<Rightarrow> ''competitive_research'') @ ''.'' @ name"

text \<open>\<^verbatim>\<open>error instanceof Error ? error.message : 'Unknown error'\<close>\<close>

fun error_message :: "thrown \<Rightarrow> context_value" where
  "error_message TypeError = CTypeErrorMessage"
| "error_message (ErrorObject m) = CString m"
| "error_message OtherValue = CString ''Unknown error''"

section \<open>The system instructions\<close>

definition chat_prompt_lines :: "string list" where
  \<open>chat_prompt_lines =
   [''You are a helpful personal assistant designed to help with general research, questions, and tasks.'',
    [],
    ''Your role is to:'',
    ''- Answer questions on any topic accurately and thoroughly'',
    ''- Help with research by searching the web for current information'',
    ''- Assist with writing, editing, and brainstorming'',
    ''- Provide explanations and summaries of complex topics'',
    ''- Help solve problems and think through decisions'',
    [],
    ''Guidelines:'',
    ''- Be friendly, clear, and conversational'',
    ''- Use web search when you need current information, facts you're unsure about, or real-time data'',
    ''- Keep responses concise but complete - expand when the topic warrants depth'',
    ''- Use markdown formatting when it helps readability (bullet points, code blocks, etc.)'',
    ''- Be honest when you don't know something and offer to search for answers'']\<close>

definition research_prompt_lines :: "string list" where
  \<open>research_prompt_lines =
   [''You are a competitive research analyst specializing in application monitoring, error tracking, and observability platforms.'',
    [],
    ''Your role is to help analyze and compare Sentry against competitor products like:'',
    ''- Datadog APM'',
    ''- New Relic'',
    ''- Rollbar'',
    ''- Bugsnag'',
    ''- LogRocket'',
    ''- Raygun'',
    ''- Honeybadger'',
    ''- AppDynamics'',
    ''- Dynatrace'',
    ''- Elastic APM'',
    [],
    ''When conducting competitive research, you should:'',
    ''- Search the web for the latest information about competitor features, pricing, and capabilities'',
    ''- Compare features side-by-side with Sentry'',
    ''- Analyze market positioning, strengths, and weaknesses'',
    ''- Review recent product announcements, blog posts, and documentation'',
    ''- Examine user reviews, Reddit discussions, and community sentiment'',
    ''- Identify differentiators and competitive advantages'',
    ''- Provide data-driven insights with sources'',
    [],
    ''Guidelines:'',
    ''- Always cite your sources with URLs'',
    ''- Be objective and fair in your analysis'',
    ''- Focus on factual information, not speculation'',
    ''- Use web search extensively to get current, accurate data'',
    ''- Present findings in clear, structured markdown (tables, bullet points, etc.)'',
    ''- When comparing pricing, include free tier and enterprise options'',
    ''- Highlight unique features and capabilities on both sides'',
    ''- Consider different use cases (startup vs enterprise, web vs mobile, etc.)'']\<close>

definition SYSTEM_PROMPT :: "endpoint \<Rightarrow> string" where
  "SYSTEM_PROMPT e =
     join [LF] (case e of Chat \<Rightarrow> chat_prompt_lines | CompetitiveResearch \<Rightarrow> research_prompt_lines)"

section \<open>The upstream engine\<close>

text \<open>
  The messages of the agent SDK, as far as the handlers look into them: a
  \<^verbatim>\<open>stream_event\<close> with its raw event (its \<^verbatim>\<open>type\<close> and, when present, its
  \<^verbatim>\<open>delta\<close>), an \<^verbatim>\<open>assistant\<close> message with \<^verbatim>\<open>message.content\<close> (\<open>None\<close>
  when that is not an array), a \<^verbatim>\<open>tool_progress\<close> with \<^verbatim>\<open>tool_name\<close> and
  \<^verbatim>\<open>elapsed_time_seconds\<close>, a \<^verbatim>\<open>result\<close> with its \<^verbatim>\<open>subtype\<close>, and any
  message of another type.
\<close>

datatype delta = Delta (delta_type: string) (delta_text: string)

datatype raw_event = RawEvent (event_type: string) (event_delta: "delta option")

datatype content_block = ContentBlock (block_type: string) (block_name: string)

datatype sdk_message =
    StreamEvent raw_event
  | AssistantMessage "content_block list option"
  | ToolProgress string number
  | ResultMessage string
  | OtherMessage string

text \<open>
  One run of \<^verbatim>\<open>query(...)\<close> under \<^verbatim>\<open>for await\<close>: the messages it yields, then
  either it returns (\<open>None\<close>) or it throws. A call of \<^verbatim>\<open>query\<close> that throws at once
  is a run that yields nothing and throws.
\<close>

datatype upstream = Upstream (yielded: "sdk_message list") (raised: "thrown option")

record query_args =
  prompt :: string
  maxTurns :: nat
  model :: "json option"
  tools_preset :: string
  permissionMode :: string
  allowDangerouslySkipPermissions :: bool
  includePartialMessages :: bool

section \<open>The outbound stream\<close>

text \<open>
  A chunk handed to \<^verbatim>\<open>controller.enqueue\<close> is either the line
  \<^verbatim>\<open>data: \<close> followed by \<^verbatim>\<open>JSON.stringify\<close> of a frame object and a blank line, or
  the literal closing marker.
\<close>

datatype chunk = Frame json | Sentinel

fun encode :: "chunk \<Rightarrow> string" where
  "encode (Frame j) = ''data: '' @ JSON_stringify j @ [LF, LF]"
| "encode Sentinel = ''data: [DONE]'' @ [LF, LF]"

text \<open>
  The variables the stream callback closes over (\<^verbatim>\<open>toolsUsed\<close>, a \<^verbatim>\<open>Set\<close> kept here
  in insertion order, and \<^verbatim>\<open>textChunksStreamed\<close>), the chunks enqueued so far, whether
  \<^verbatim>\<open>controller.close()\<close> has been called, and the telemetry calls made so far.
  \<^verbatim>\<open>enqueue\<close> and \<^verbatim>\<open>close\<close> are taken to succeed: a client that goes away while
  the stream is written is not modelled.
\<close>

record stream_state =
  toolsUsed :: "string list"
  textChunksStreamed :: nat
  enqueued :: "chunk list"
  closed :: bool
  telemetry :: "telemetry_call list"

text \<open>\<^verbatim>\<open>Set.prototype.add\<close>\<close>

definition add :: "string \<Rightarrow> string list \<Rightarrow> string list" where
  "add x xs = (if x \<in> set xs then xs else xs @ [x])"

definition model_or :: "json option \<Rightarrow> string \<Rightarrow> json" where
  "model_or m d = (case m of Some v \<Rightarrow> (if truthy m then v else JString d) | None \<Rightarrow> JString d)"

text \<open>The body of \<^verbatim>\<open>for (const block of content)\<close>.\<close>

definition on_block :: "endpoint \<Rightarrow> stream_state \<Rightarrow> content_block \<Rightarrow> stream_state" where
  "on_block e s b =
     (if block_type b = ''tool_use'' then
        s\<lparr>toolsUsed := add (block_name b) (toolsUsed s),
          telemetry := telemetry s @
            [Increment (metric e ''tool.used'') 1 [(''tool_name'', block_name b)],
             Log LogInfo
               (case e of Chat \<Rightarrow> ''Tool execution started''
                | CompetitiveResearch \<Rightarrow> ''Tool execution started in competitive research'')
               [(''toolName'', CString (block_name b))] None],
          enqueued := enqueued s @
            [Frame (JObject [(''type'', JString ''tool_start''), (''tool'', JString (block_name b))])]\<rparr>
      else s)"

text \<open>The body of \<^verbatim>\<open>for await (const message of query(...))\<close>.\<close>

fun on_message :: "endpoint \<Rightarrow> stream_state \<Rightarrow> sdk_message \<Rightarrow> stream_state" where
  "on_message e s (StreamEvent ev) =
     (case event_delta ev of
        Some d \<Rightarrow>
          (if event_type ev = ''content_block_delta'' \<and> delta_type d = ''text_delta'' then
             s\<lparr>textChunksStreamed := textChunksStreamed s + 1,
               enqueued := enqueued s @
                 [Frame (JObject [(''type'', JString ''text_delta''), (''text'', JString (delta_text d))])]\<rparr>
           else s)
      | None \<Rightarrow> s)"
| "on_message e s (AssistantMessage content) =
     (case content of Some blocks \<Rightarrow> foldl (on_block e) s blocks | None \<Rightarrow> s)"
| "on_message e s (ToolProgress tool_name elapsed_time_seconds) =
     s\<lparr>telemetry := telemetry s @
          [Gauge (metric e ''tool.elapsed_time'') (Reading elapsed_time_seconds)
             [(''tool_name'', tool_name)]],
       enqueued := enqueued s @
          [Frame (JObject [(''type'', JString ''tool_progress''), (''tool'', JString tool_name),
                           (''elapsed'', JNumber elapsed_time_seconds)])]\<rparr>"
| "on_message e s (ResultMessage subtype) =
     (if subtype = ''success'' then
        s\<lparr>telemetry := telemetry s @
            [Timing (metric e ''stream.duration'') ClockSeconds [(''status'', ''success'')],
             Gauge (metric e ''stream.chunks'') (Count (textChunksStreamed s)) [],
             Gauge (metric e ''stream.tools_used'') (Count (length (toolsUsed s))) [],
             Log LogInfo
               (case e of Chat \<Rightarrow> ''Chat request completed successfully''
                | CompetitiveResearch \<Rightarrow> ''Competitive research request completed successfully'')
               [(''streamDuration'', CSeconds),
                (''textChunksStreamed'', CNat (textChunksStreamed s)),
                (''toolsUsed'', CStrings (toolsUsed s)),
                (''toolCount'', CNat (length (toolsUsed s)))] None],
          enqueued := enqueued s @ [Frame (JObject [(''type'', JString ''done'')])]\<rparr>
      else
        s\<lparr>telemetry := telemetry s @
            [Increment (metric e ''api.query_error'') 1 [(''subtype'', subtype)],
             Log LogError
               (case e of Chat \<Rightarrow> ''Claude query failed''
                | CompetitiveResearch \<Rightarrow> ''Claude query failed in competitive research'')
               [(''subtype'', CString subtype), (''toolsUsed'', CStrings (toolsUsed s))] None],
          enqueued := enqueued s @
            [Frame (JObject [(''type'', JString ''error''),
                             (''message'', JString ''Query did not complete successfully'')])]\<rparr>)"
| "on_message e s (OtherMessage t) = s"

text \<open>The options object of the \<^verbatim>\<open>query\<close> call.\<close>

definition query_options :: "endpoint \<Rightarrow> json option \<Rightarrow> string \<Rightarrow> query_args" where
  "query_options e mdl fullPrompt =
     \<lparr>prompt = fullPrompt,
      maxTurns = 10,
      model = (case e of Chat \<Rightarrow> None
               | CompetitiveResearch \<Rightarrow> Some (model_or mdl ''claude-sonnet-4-5-20250929'')),
      tools_preset = ''claude_code'',
      permissionMode = ''bypassPermissions'',
      allowDangerouslySkipPermissions = True,
      includePartialMessages = True\<rparr>"

text \<open>
  The \<^verbatim>\<open>start(controller)\<close> callback of the \<^verbatim>\<open>ReadableStream\<close>: the \<^verbatim>\<open>try\<close>
  block runs the loop and, when the iteration ends without throwing, enqueues the closing
  marker and closes; the \<^verbatim>\<open>catch\<close> block reports, enqueues an error frame and closes.
\<close>

definition start ::
  "endpoint \<Rightarrow> (query_args \<Rightarrow> upstream) \<Rightarrow> json option \<Rightarrow> string \<Rightarrow> stream_state" where
  "start e query mdl fullPrompt =
     (let s0 = \<lparr>toolsUsed = [], textChunksStreamed = 0, enqueued = [], closed = False,
                telemetry =
                  [Log LogDebug
                     (case e of Chat \<Rightarrow> ''Starting Claude Agent SDK query''
                      | CompetitiveResearch \<Rightarrow>
                          ''Starting Claude Agent SDK query for competitive research'')
                     (case e of Chat \<Rightarrow> [(''promptLength'', CNat (length fullPrompt))]
                      | CompetitiveResearch \<Rightarrow>
                          [(''promptLength'', CNat (length fullPrompt)),
                           (''model'', CJson (model_or mdl ''default''))])
                     None]\<rparr>;
          u = query (query_options e mdl fullPrompt);
          s = foldl (on_message e) s0 (yielded u)
      in case raised u of
           None \<Rightarrow> s\<lparr>enqueued := enqueued s @ [Sentinel], closed := True\<rparr>
         | Some err \<Rightarrow>
             s\<lparr>telemetry := telemetry s @
                 [Increment (metric e ''api.stream_error'') 1 [],
                  Timing (metric e ''stream.duration'') ClockSeconds [(''status'', ''error'')],
                  Log LogError
                    (case e of Chat \<Rightarrow> ''Stream error occurred''
                     | CompetitiveResearch \<Rightarrow> ''Stream error occurred in competitive research'')
                    [(''error'', error_message err),
                     (''streamDuration'', CSeconds),
                     (''textChunksStreamed'', CNat (textChunksStreamed s)),
                     (''toolsUsed'', CStrings (toolsUsed s))]
                    (Some err)],
               enqueued := enqueued s @
                 [Frame (JObject [(''type'', JString ''error''),
                                  (''message'', JString ''Stream error occurred'')])],
               closed := True\<rparr>)"

section \<open>The route handler\<close>

datatype body = Text string | Stream "chunk list" bool

record response =
  status :: nat
  headers :: "(string \<times> string) list"
  body :: body

definition json_response :: "nat \<Rightarrow> string \<Rightarrow> response" where
  "json_response code message =
     \<lparr>status = code,
      headers = [(''Content-Type'', ''application/json'')],
      body = Text (JSON_stringify (JObject [(''error'', JString message)]))\<rparr>"

text \<open>\<^verbatim>\<open>m.role === 'user'\<close>, for \<^verbatim>\<open>m\<close> not \<^verbatim>\<open>null\<close>.\<close>

definition role_is_user :: "json \<Rightarrow> bool" where
  "role_is_user m = (property m ''role'' = Some (JString ''user''))"

text \<open>
  \<^verbatim>\<open>`${m.role === 'user' ? 'User' : 'Assistant'}: ${m.content}`\<close>, for \<^verbatim>\<open>m\<close> not
  \<^verbatim>\<open>null\<close>; \<open>None\<close> when the conversion of the content throws.
\<close>

definition render :: "json \<Rightarrow> string option" where
  "render m =
     map_option (\<lambda>content. (if role_is_user m then ''User'' else ''Assistant'') @ '': '' @ content)
       (template (property m ''content''))"

text \<open>
  \<^verbatim>\<open>messages.slice(0, -1).map(...).join('\n\n')\<close>; \<open>None\<close> when rendering one of the
  messages throws.
\<close>

definition conversationContext :: "json list \<Rightarrow> string option" where
  "conversationContext messages =
     map_option (join [LF, LF]) (those (map render (butlast messages)))"

text \<open>
  The two statements that build \<^verbatim>\<open>fullPrompt\<close>: first \<^verbatim>\<open>conversationContext\<close>, then
  the prompt around it. \<open>None\<close> when either throws.
\<close>

definition fullPrompt :: "endpoint \<Rightarrow> json list \<Rightarrow> json \<Rightarrow> string option" where
  "fullPrompt e messages lastUserMessage =
     (case conversationContext messages of
        None \<Rightarrow> None
      | Some history \<Rightarrow>
          (case template (property lastUserMessage ''content'') of
             None \<Rightarrow> None
           | Some content \<Rightarrow>
               Some
                 (if history \<noteq> [] then
                    SYSTEM_PROMPT e @ [LF, LF] @ ''Previous conversation:'' @ [LF] @
                    history @ [LF, LF] @ ''User: '' @ content
                  else SYSTEM_PROMPT e @ [LF, LF] @ ''User: '' @ content)))"

text \<open>
  The outer \<^verbatim>\<open>try\<close> block of \<^verbatim>\<open>POST\<close>, in two parts. A result is the
  telemetry calls made and either the value thrown out of the block or the response
  returned.

  \<open>handle_messages\<close> is the block from the message metrics on, for \<^verbatim>\<open>messages\<close> an array.
  It throws a \<^verbatim>\<open>TypeError\<close> when \<^verbatim>\<open>m.role\<close> is read on a \<^verbatim>\<open>null\<close> element (in
  the first \<^verbatim>\<open>filter\<close>, before any call is made), when
  \<^verbatim>\<open>lastUserMessage.content.substring\<close> is called on a content that is not a string, and
  when a content of the history cannot be converted to a string while the prompt is built.
  The stream callback runs after the response has been returned; its telemetry follows that
  of the setup.
\<close>

definition handle_messages ::
  "endpoint \<Rightarrow> (query_args \<Rightarrow> upstream) \<Rightarrow> json option \<Rightarrow> json list \<Rightarrow>
   telemetry_call list \<times> (thrown + response)" where
  "handle_messages e query mdl messages =
     (if JNull \<in> set messages then ([], Inl TypeError)
      else
        let userMessageCount = length (filter role_is_user messages);
            conversationLength = length messages;
            counted =
              [Increment (metric e ''api.request'') 1
                 [(''conversation_length'', decimal conversationLength)],
               Gauge (metric e ''conversation.messages'') (Count conversationLength)
                 [(''type'', ''total'')],
               Gauge (metric e ''conversation.user_messages'') (Count userMessageCount)
                 [(''type'', ''user'')]]
        in
        if filter role_is_user messages = [] then
          (counted @
           [Increment (metric e ''api.validation_error'') 1 [(''error_type'', ''no_user_message'')],
            Log LogWarn
              (case e of Chat \<Rightarrow> ''Chat API validation failed: no user message found''
               | CompetitiveResearch \<Rightarrow>
                   ''Competitive Research API validation failed: no user message found'')
              [(''messageCount'', CNat (length messages)),
               (''userMessageCount'', CNat userMessageCount)]
              None],
           Inr (json_response 400 ''No user message found''))
        else
          let lastUserMessage = last (filter role_is_user messages) in
          (case property lastUserMessage ''content'' of
             Some (JString content) \<Rightarrow>
               let processing =
                     [Log LogInfo
                        (case e of Chat \<Rightarrow> ''Processing chat request''
                         | CompetitiveResearch \<Rightarrow> ''Processing competitive research request'')
                        ([(''conversationLength'', CNat conversationLength),
                          (''userMessageCount'', CNat userMessageCount),
                          (''messagePreview'', CString (take 100 content)),
                          (''hasContext'', CBool (conversationLength > 1))] @
                         (case e of Chat \<Rightarrow> []
                          | CompetitiveResearch \<Rightarrow>
                              [(''modelRequested'', CJson (model_or mdl ''default''))]))
                        None]
               in (case fullPrompt e messages lastUserMessage of
                     None \<Rightarrow> (counted @ processing, Inl TypeError)
                   | Some p \<Rightarrow>
                       let s = start e query mdl p
                       in (counted @ processing @ telemetry s,
                           Inr \<lparr>status = 200,
                                headers = [(''Content-Type'', ''text/event-stream''),
                                           (''Cache-Control'', ''no-cache''),
                                           (''Connection'', ''keep-alive'')],
                                body = Stream (enqueued s) (closed s)\<rparr>))
           | _ \<Rightarrow> (counted, Inl TypeError)))"

text \<open>
  \<open>try_block\<close> is the whole block. Its argument is what \<^verbatim>\<open>await request.json()\<close>
  does: it throws (a body that is not JSON) or gives the parsed value. Destructuring
  \<^verbatim>\<open>null\<close> throws a \<^verbatim>\<open>TypeError\<close>. The chat handler does not read \<^verbatim>\<open>model\<close>;
  nothing in its part of the model uses it.
\<close>

definition try_block ::
  "endpoint \<Rightarrow> (query_args \<Rightarrow> upstream) \<Rightarrow> thrown + json \<Rightarrow>
   telemetry_call list \<times> (thrown + response)" where
  "try_block e query request_json =
     (case request_json of
        Inl err \<Rightarrow> ([], Inl err)
      | Inr parsed \<Rightarrow>
          (if parsed = JNull then ([], Inl TypeError)
           else
             let messages = property parsed ''messages'';
                 mdl = property parsed ''model''
             in
             if \<not> truthy messages \<or> \<not> isArray messages then
               ([Increment (metric e ''api.validation_error'') 1
                   [(''error_type'', ''missing_messages'')],
                 Log LogWarn
                   (case e of Chat \<Rightarrow> ''Chat API validation failed: missing messages array''
                    | CompetitiveResearch \<Rightarrow>
                        ''Competitive Research API validation failed: missing messages array'')
                   [(''hasMessages'', CBool (truthy messages)),
                    (''isArray'', CBool (isArray messages))]
                   None],
                Inr (json_response 400 ''Messages array is required''))
             else handle_messages e query mdl (elements messages)))"

text \<open>\<^verbatim>\<open>POST\<close>: the \<^verbatim>\<open>try\<close> block and the \<^verbatim>\<open>catch\<close> clause around it.\<close>

definition POST ::
  "endpoint \<Rightarrow> (query_args \<Rightarrow> upstream) \<Rightarrow> thrown + json \<Rightarrow> telemetry_call list \<times> response" where
  "POST e query request_json =
     (case try_block e query request_json of
        (calls, Inr r) \<Rightarrow> (calls, r)
      | (calls, Inl err) \<Rightarrow>
          (calls @
           [Increment (metric e ''api.error'') 1 [],
            Timing (metric e ''api.duration'') ClockSeconds [(''status'', ''error'')],
            Log LogError
              (case e of Chat \<Rightarrow> ''Chat API error''
               | CompetitiveResearch \<Rightarrow> ''Competitive Research API error'')
              [(''error'', error_message err), (''requestDuration'', CSeconds)]
              (Some err)],
           json_response 500
             (case e of
                Chat \<Rightarrow> ''Failed to process chat request. Check server logs for details.''
              | CompetitiveResearch \<Rightarrow>
                  ''Failed to process competitive research request. Check server logs for details.'')))"

section \<open>Reading a run and a stream\<close>

text \<open>
  The definitions of this section are not part of the handlers. They name what the
  statements about the handlers speak of: the frames by their type, the text fragments and
  tool invocations of a run, and a few engines and requests to run the handlers on.
\<close>

text \<open>An engine that gives the run \<open>u\<close> whatever it is asked.\<close>

definition replay :: "upstream \<Rightarrow> query_args \<Rightarrow> upstream" where
  "replay u args = u"

text \<open>The frame objects the handlers build.\<close>

definition text_delta_frame :: "string \<Rightarrow> chunk" where
  "text_delta_frame t = Frame (JObject [(''type'', JString ''text_delta''), (''text'', JString t)])"

definition tool_start_frame :: "string \<Rightarrow> chunk" where
  "tool_start_frame n = Frame (JObject [(''type'', JString ''tool_start''), (''tool'', JString n)])"

definition tool_progress_frame :: "string \<Rightarrow> number \<Rightarrow> chunk" where
  "tool_progress_frame n t =
     Frame (JObject [(''type'', JString ''tool_progress''), (''tool'', JString n),
                     (''elapsed'', JNumber t)])"

definition done_frame :: chunk where
  "done_frame = Frame (JObject [(''type'', JString ''done'')])"

definition error_frame :: "string \<Rightarrow> chunk" where
  "error_frame m = Frame (JObject [(''type'', JString ''error''), (''message'', JString m)])"

text \<open>The \<^verbatim>\<open>type\<close> of a frame, as the client reads it after \<^verbatim>\<open>JSON.parse\<close>.\<close>

fun frame_type :: "chunk \<Rightarrow> string option" where
  "frame_type (Frame j) = (case property j ''type'' of Some (JString t) \<Rightarrow> Some t | _ \<Rightarrow> None)"
| "frame_type Sentinel = None"

definition frames_of_type :: "string \<Rightarrow> chunk list \<Rightarrow> chunk list" where
  "frames_of_type t cs = filter (\<lambda>c. frame_type c = Some t) cs"

text \<open>The \<^verbatim>\<open>text\<close> fields of the \<^verbatim>\<open>text_delta\<close> frames of a stream, in order.\<close>

fun frame_text :: "chunk \<Rightarrow> string list" where
  "frame_text (Frame j) =
     (if property j ''type'' = Some (JString ''text_delta'') then
        (case property j ''text'' of Some (JString t) \<Rightarrow> [t] | _ \<Rightarrow> [])
      else [])"
| "frame_text Sentinel = []"

definition frame_texts :: "chunk list \<Rightarrow> string list" where
  "frame_texts cs = concat (map frame_text cs)"

text \<open>
  The text fragments of a run: the \<^verbatim>\<open>text\<close> of each \<^verbatim>\<open>content_block_delta\<close> stream
  event whose delta is a \<^verbatim>\<open>text_delta\<close>, in order.
\<close>

fun text_fragment :: "sdk_message \<Rightarrow> string list" where
  "text_fragment (StreamEvent ev) =
     (case event_delta ev of
        Some d \<Rightarrow>
          (if event_type ev = ''content_block_delta'' \<and> delta_type d = ''text_delta''
           then [delta_text d] else [])
      | None \<Rightarrow> [])"
| "text_fragment _ = []"

definition text_fragments :: "sdk_message list \<Rightarrow> string list" where
  "text_fragments ms = concat (map text_fragment ms)"

text \<open>The tool invocations of a run: the names of the \<^verbatim>\<open>tool_use\<close> blocks, in order.\<close>

fun tool_invocation :: "sdk_message \<Rightarrow> string list" where
  "tool_invocation (AssistantMessage (Some blocks)) =
     map block_name (filter (\<lambda>b. block_type b = ''tool_use'') blocks)"
| "tool_invocation _ = []"

definition tool_invocations :: "sdk_message list \<Rightarrow> string list" where
  "tool_invocations ms = concat (map tool_invocation ms)"

text \<open>Completion events: a \<^verbatim>\<open>result\<close> message, successful or not.\<close>

fun completion_success :: "sdk_message \<Rightarrow> bool" where
  "completion_success (ResultMessage subtype) = (subtype = ''success'')"
| "completion_success _ = False"

fun completion_failure :: "sdk_message \<Rightarrow> bool" where
  "completion_failure (ResultMessage subtype) = (subtype \<noteq> ''success'')"
| "completion_failure _ = False"

text \<open>The frames one message of the run puts on the stream.\<close>

fun message_frames :: "sdk_message \<Rightarrow> chunk list" where
  "message_frames (ResultMessage subtype) =
     [if subtype = ''success'' then done_frame
      else error_frame ''Query did not complete successfully'']"
| "message_frames (ToolProgress n t) = [tool_progress_frame n t]"
| "message_frames m = map text_delta_frame (text_fragment m) @ map tool_start_frame (tool_invocation m)"

text \<open>
  A request body with the given \<^verbatim>\<open>messages\<close>, and a message with a role and a
  content.
\<close>

definition with_messages :: "json list \<Rightarrow> thrown + json" where
  "with_messages ms = Inr (JObject [(''messages'', JArray ms)])"

definition turn :: "string \<Rightarrow> string \<Rightarrow> json" where
  "turn r c = JObject [(''role'', JString r), (''content'', JString c)]"

text \<open>\<^verbatim>\<open>toolsUsed\<close> after the given names have been added one by one.\<close>

definition tools_seen :: "string list \<Rightarrow> string list" where
  "tools_seen ns = foldl (\<lambda>acc n. add n acc) [] ns"

text \<open>An engine that yields the prompt it is given as one text fragment, and returns.\<close>

definition echo :: "query_args \<Rightarrow> upstream" where
  "echo args =
     Upstream [StreamEvent (RawEvent ''content_block_delta'' (Some (Delta ''text_delta'' (prompt args))))]
       None"

text \<open>What the \<^verbatim>\<open>catch\<close> block of the stream callback logs.\<close>

definition stream_error_log :: "endpoint \<Rightarrow> thrown \<Rightarrow> nat \<Rightarrow> string list \<Rightarrow> telemetry_call" where
  "stream_error_log e err n ts =
     Log LogError
       (case e of Chat \<Rightarrow> ''Stream error occurred''
        | CompetitiveResearch \<Rightarrow> ''Stream error occurred in competitive research'')
       [(''error'', error_message err),
        (''streamDuration'', CSeconds),
        (''textChunksStreamed'', CNat n),
        (''toolsUsed'', CStrings ts)]
       (Some err)"


text \<open>
  The arguments \<open>POST\<close> hands to the engine for a request that passes validation, and the
  run the engine then gives: the run the stream callback iterates over.
\<close>

definition request_args :: "endpoint \<Rightarrow> thrown + json \<Rightarrow> query_args" where
  "request_args e request_json =
     (case request_json of
        Inl err \<Rightarrow> query_options e None []
      | Inr parsed \<Rightarrow>
          query_options e (property parsed ''model'')
            (case fullPrompt e (elements (property parsed ''messages''))
                    (last (filter role_is_user (elements (property parsed ''messages'')))) of
               Some p \<Rightarrow> p
             | None \<Rightarrow> []))"

definition run :: "endpoint \<Rightarrow> (query_args \<Rightarrow> upstream) \<Rightarrow> thrown + json \<Rightarrow> upstream" where
  "run e query request_json = query (request_args e request_json)"

section \<open>How the stream callback builds the stream\<close>

lemma add_set: "set (add x xs) = insert x (set xs)"
  by (auto simp: add_def)

lemma add_distinct: "distinct xs \<Longrightarrow> distinct (add x xs)"
  by (simp add: add_def)

lemma add_present: "x \<in> set xs \<Longrightarrow> add x xs = xs"
  by (simp add: add_def)

lemma on_block_enqueued:
  "enqueued (on_block e s b) =
     enqueued s @ (if block_type b = ''tool_use'' then [tool_start_frame (block_name b)] else [])"
  by (simp add: on_block_def tool_start_frame_def)

lemma on_block_chunks: "textChunksStreamed (on_block e s b) = textChunksStreamed s"
  by (simp add: on_block_def)

lemma on_block_closed: "closed (on_block e s b) = closed s"
  by (simp add: on_block_def)

lemma on_block_tools:
  "toolsUsed (on_block e s b) =
     (if block_type b = ''tool_use'' then add (block_name b) (toolsUsed s) else toolsUsed s)"
  by (simp add: on_block_def)

lemma blocks_enqueued:
  "enqueued (foldl (on_block e) s bs) =
     enqueued s @ map tool_start_frame (map block_name (filter (\<lambda>b. block_type b = ''tool_use'') bs))"
  by (induction bs arbitrary: s) (simp_all add: on_block_enqueued)

lemma blocks_chunks: "textChunksStreamed (foldl (on_block e) s bs) = textChunksStreamed s"
  by (induction bs arbitrary: s) (simp_all add: on_block_chunks)

lemma blocks_closed: "closed (foldl (on_block e) s bs) = closed s"
  by (induction bs arbitrary: s) (simp_all add: on_block_closed)

lemma blocks_tools:
  "toolsUsed (foldl (on_block e) s bs) =
     foldl (\<lambda>acc n. add n acc) (toolsUsed s)
       (map block_name (filter (\<lambda>b. block_type b = ''tool_use'') bs))"
  by (induction bs arbitrary: s) (simp_all add: on_block_tools)

lemma on_message_enqueued: "enqueued (on_message e s m) = enqueued s @ message_frames m"
  by (cases m)
     (auto simp: blocks_enqueued text_delta_frame_def tool_progress_frame_def done_frame_def
        error_frame_def split: option.splits)

lemma on_message_chunks:
  "textChunksStreamed (on_message e s m) = textChunksStreamed s + length (text_fragment m)"
  by (cases m) (auto simp: blocks_chunks split: option.splits)

lemma on_message_closed: "closed (on_message e s m) = closed s"
  by (cases m) (auto simp: blocks_closed split: option.splits)

lemma on_message_tools:
  "toolsUsed (on_message e s m) = foldl (\<lambda>acc n. add n acc) (toolsUsed s) (tool_invocation m)"
  by (cases m) (auto simp: blocks_tools split: option.splits)

lemma messages_enqueued:
  "enqueued (foldl (on_message e) s ms) = enqueued s @ concat (map message_frames ms)"
  by (induction ms arbitrary: s) (simp_all add: on_message_enqueued)

lemma messages_chunks:
  "textChunksStreamed (foldl (on_message e) s ms) = textChunksStreamed s + length (text_fragments ms)"
  by (induction ms arbitrary: s) (simp_all add: on_message_chunks text_fragments_def)

lemma messages_closed: "closed (foldl (on_message e) s ms) = closed s"
  by (induction ms arbitrary: s) (simp_all add: on_message_closed)

lemma messages_tools:
  "toolsUsed (foldl (on_message e) s ms) =
     foldl (\<lambda>acc n. add n acc) (toolsUsed s) (tool_invocations ms)"
  by (induction ms arbitrary: s) (simp_all add: on_message_tools tool_invocations_def)

lemma adds_set: "set (foldl (\<lambda>acc n. add n acc) xs ns) = set xs \<union> set ns"
  by (induction ns arbitrary: xs) (auto simp: add_set)

lemma adds_distinct: "distinct xs \<Longrightarrow> distinct (foldl (\<lambda>acc n. add n acc) xs ns)"
  by (induction ns arbitrary: xs) (simp_all add: add_distinct)

lemma start_enqueued:
  "enqueued (start e q mdl p) =
     concat (map message_frames (yielded (q (query_options e mdl p)))) @
     [case raised (q (query_options e mdl p)) of
        None \<Rightarrow> Sentinel | Some err \<Rightarrow> error_frame ''Stream error occurred'']"
  by (simp add: start_def Let_def messages_enqueued error_frame_def split: option.splits)

lemma start_closed: "closed (start e q mdl p)"
  by (simp add: start_def Let_def split: option.splits)

lemma start_chunks:
  "textChunksStreamed (start e q mdl p) = length (text_fragments (yielded (q (query_options e mdl p))))"
  by (simp add: start_def Let_def messages_chunks split: option.splits)

lemma start_tools:
  "toolsUsed (start e q mdl p) =
     tools_seen (tool_invocations (yielded (q (query_options e mdl p))))"
  by (simp add: start_def Let_def messages_tools tools_seen_def split: option.splits)

lemma start_telemetry_throw:
  assumes "raised (q (query_options e mdl p)) = Some err"
  shows "\<exists>pre. telemetry (start e q mdl p) =
           pre @ [stream_error_log e err (textChunksStreamed (start e q mdl p))
                    (toolsUsed (start e q mdl p))]"
  using assms by (simp add: start_def Let_def stream_error_log_def)

lemma ex_prefix4: "\<exists>pre. a # b # c # d # ys = pre @ ys"
  by (rule exI [where x = "[a, b, c, d]"]) simp

lemma handle_messages_stream:
  assumes "snd (handle_messages e q mdl ms) = Inr r" and "body r = Stream cs c"
  shows "JNull \<notin> set ms \<and> filter role_is_user ms \<noteq> [] \<and>
         (\<exists>content p pre.
            property (last (filter role_is_user ms)) ''content'' = Some (JString content) \<and>
            fullPrompt e ms (last (filter role_is_user ms)) = Some p \<and>
            cs = enqueued (start e q mdl p) \<and> c = closed (start e q mdl p) \<and>
            fst (handle_messages e q mdl ms) = pre @ telemetry (start e q mdl p))"
proof (cases "JNull \<in> set ms \<or> filter role_is_user ms = []")
  case True
  with assms show ?thesis
    by (auto simp: handle_messages_def Let_def json_response_def split: if_splits)
next
  case False
  show ?thesis
  proof (cases "property (last (filter role_is_user ms)) ''content''")
    case None
    with False assms show ?thesis by (simp add: handle_messages_def Let_def)
  next
    case (Some v)
    show ?thesis
    proof (cases v)
      case (JString content)
      show ?thesis
      proof (cases "fullPrompt e ms (last (filter role_is_user ms))")
        case None
        with JString Some False assms show ?thesis
          by (simp add: handle_messages_def Let_def)
      next
        case p: (Some p)
        with JString Some False assms show ?thesis
          by (clarsimp simp: handle_messages_def Let_def ex_prefix4)
      qed
    qed (use Some False assms in \<open>simp_all add: handle_messages_def Let_def\<close>)
  qed
qed

lemma try_block_stream:
  assumes "snd (try_block e q r) = Inr resp" and "body resp = Stream cs c"
  shows "\<exists>mdl p pre. cs = enqueued (start e q mdl p) \<and> c = closed (start e q mdl p) \<and>
           fst (try_block e q r) = pre @ telemetry (start e q mdl p)"
proof (cases r)
  case (Inl err)
  with assms show ?thesis by (simp add: try_block_def)
next
  case (Inr parsed)
  show ?thesis
  proof (cases "parsed = JNull \<or> \<not> truthy (property parsed ''messages'')
                 \<or> \<not> isArray (property parsed ''messages'')")
    case True
    with assms Inr show ?thesis
      by (auto simp: try_block_def Let_def json_response_def split: if_splits)
  next
    case False
    with Inr
    have eq: "try_block e q r = handle_messages e q (property parsed ''model'')
                 (elements (property parsed ''messages''))"
      by (simp add: try_block_def Let_def)
    from assms(1) have "snd (handle_messages e q (property parsed ''model'')
                 (elements (property parsed ''messages''))) = Inr resp"
      by (simp add: eq)
    from handle_messages_stream [OF this assms(2)] show ?thesis
      unfolding eq by blast
  qed
qed

lemma POST_stream:
  assumes "body (snd (POST e q r)) = Stream cs c"
  shows "\<exists>mdl p pre. cs = enqueued (start e q mdl p) \<and> c = closed (start e q mdl p) \<and>
           fst (POST e q r) = pre @ telemetry (start e q mdl p)"
proof (cases "snd (try_block e q r)")
  case (Inl err)
  with assms show ?thesis
    by (simp add: POST_def json_response_def split: prod.splits)
next
  case (Inr resp)
  with assms have b: "body resp = Stream cs c"
    by (simp add: POST_def split: prod.splits)
  from Inr have "fst (POST e q r) = fst (try_block e q r)"
    by (cases "try_block e q r") (simp add: POST_def)
  with try_block_stream [OF Inr b] show ?thesis by simp
qed

text \<open>The chunks of a streamed response, for an engine that gives the run \<open>u\<close>.\<close>

lemma POST_replay:
  assumes "body (snd (POST e (replay u) r)) = Stream cs c"
  shows "c \<and> cs = concat (map message_frames (yielded u)) @
           [case raised u of None \<Rightarrow> Sentinel | Some err \<Rightarrow> error_frame ''Stream error occurred'']"
  using POST_stream [OF assms] by (auto simp: start_enqueued start_closed replay_def)

lemma POST_replay_log:
  assumes "body (snd (POST e (replay u) r)) = Stream cs c" and "raised u = Some err"
  shows "last (fst (POST e (replay u) r)) =
           stream_error_log e err (length (text_fragments (yielded u)))
             (tools_seen (tool_invocations (yielded u)))"
proof -
  from POST_stream [OF assms(1)] obtain mdl p pre
    where t: "fst (POST e (replay u) r) = pre @ telemetry (start e (replay u) mdl p)"
    by blast
  have "raised (replay u (query_options e mdl p)) = Some err"
    using assms(2) by (simp add: replay_def)
  from start_telemetry_throw [of "replay u" e mdl p err, OF this] obtain pre'
    where "telemetry (start e (replay u) mdl p) =
             pre' @ [stream_error_log e err (textChunksStreamed (start e (replay u) mdl p))
                      (toolsUsed (start e (replay u) mdl p))]"
    by blast
  with t show ?thesis
    by (simp add: start_chunks start_tools replay_def)
qed

subsection \<open>Frames by type\<close>

lemma frame_type_simps:
  "frame_type (text_delta_frame t) = Some ''text_delta''"
  "frame_type (tool_start_frame n) = Some ''tool_start''"
  "frame_type (tool_progress_frame n x) = Some ''tool_progress''"
  "frame_type done_frame = Some ''done''"
  "frame_type (error_frame m) = Some ''error''"
  by (simp_all add: text_delta_frame_def tool_start_frame_def tool_progress_frame_def
      done_frame_def error_frame_def)

lemma of_type_nil: "frames_of_type t [] = []"
  by (simp add: frames_of_type_def)

lemma of_type_single: "frames_of_type t [c] = (if frame_type c = Some t then [c] else [])"
  by (simp add: frames_of_type_def)

lemma of_type_append: "frames_of_type t (xs @ ys) = frames_of_type t xs @ frames_of_type t ys"
  by (simp add: frames_of_type_def)

lemma of_type_text:
  "frames_of_type t (map text_delta_frame xs) =
     (if t = ''text_delta'' then map text_delta_frame xs else [])"
  by (induction xs) (auto simp: frames_of_type_def frame_type_simps)

lemma of_type_tool:
  "frames_of_type t (map tool_start_frame xs) =
     (if t = ''tool_start'' then map tool_start_frame xs else [])"
  by (induction xs) (auto simp: frames_of_type_def frame_type_simps)

lemmas of_type = of_type_nil of_type_single of_type_append of_type_text of_type_tool
  frame_type_simps

lemma done_of_message:
  "frames_of_type ''done'' (message_frames m) = (if completion_success m then [done_frame] else [])"
  by (cases m) (simp_all add: of_type del: map_map split: option.splits)

lemma error_of_message:
  "frames_of_type ''error'' (message_frames m) =
     (if completion_failure m then [error_frame ''Query did not complete successfully''] else [])"
  by (cases m) (simp_all add: of_type del: map_map split: option.splits)

lemma tool_start_of_message:
  "frames_of_type ''tool_start'' (message_frames m) = map tool_start_frame (tool_invocation m)"
  by (cases m) (simp_all add: of_type del: map_map split: option.splits)

lemma text_delta_of_message:
  "frames_of_type ''text_delta'' (message_frames m) = map text_delta_frame (text_fragment m)"
  by (cases m) (simp_all add: of_type del: map_map split: option.splits)

lemma done_of_messages:
  "frames_of_type ''done'' (concat (map message_frames ms)) =
     replicate (length (filter completion_success ms)) done_frame"
  by (induction ms) (simp_all add: of_type_nil of_type_append done_of_message)

lemma error_of_messages:
  "frames_of_type ''error'' (concat (map message_frames ms)) =
     replicate (length (filter completion_failure ms))
       (error_frame ''Query did not complete successfully'')"
  by (induction ms) (simp_all add: of_type_nil of_type_append error_of_message)

lemma tool_start_of_messages:
  "frames_of_type ''tool_start'' (concat (map message_frames ms)) =
     map tool_start_frame (tool_invocations ms)"
  by (induction ms)
     (simp_all add: of_type_nil of_type_append tool_start_of_message tool_invocations_def)

lemma text_delta_of_messages:
  "frames_of_type ''text_delta'' (concat (map message_frames ms)) =
     map text_delta_frame (text_fragments ms)"
  by (induction ms)
     (simp_all add: of_type_nil of_type_append text_delta_of_message text_fragments_def)

lemma sentinel_not_in_message: "Sentinel \<notin> set (message_frames m)"
  by (cases m)
     (auto simp: text_delta_frame_def tool_start_frame_def tool_progress_frame_def
        done_frame_def error_frame_def)

lemma sentinel_not_in_messages: "Sentinel \<notin> set (concat (map message_frames ms))"
  by (simp add: sentinel_not_in_message)

lemma count_sentinel_messages: "count_list (concat (map message_frames ms)) Sentinel = 0"
  using sentinel_not_in_messages by (simp add: count_list_0_iff)

lemma frame_text_simps:
  "frame_text (text_delta_frame t) = [t]"
  "frame_text (tool_start_frame n) = []"
  "frame_text (tool_progress_frame n x) = []"
  "frame_text done_frame = []"
  "frame_text (error_frame m) = []"
  by (simp_all add: text_delta_frame_def tool_start_frame_def tool_progress_frame_def
      done_frame_def error_frame_def)

lemma texts_of_text: "frame_texts (map text_delta_frame xs) = xs"
  by (induction xs) (simp_all add: frame_texts_def frame_text_simps)

lemma texts_of_tool: "frame_texts (map tool_start_frame xs) = []"
  by (induction xs) (simp_all add: frame_texts_def frame_text_simps)

lemma texts_nil: "frame_texts [] = []"
  by (simp add: frame_texts_def)

lemma texts_single: "frame_texts [c] = frame_text c"
  by (simp add: frame_texts_def)

lemma texts_append: "frame_texts (xs @ ys) = frame_texts xs @ frame_texts ys"
  by (simp add: frame_texts_def)

lemma texts_of_message: "frame_texts (message_frames m) = text_fragment m"
  by (cases m)
     (simp_all add: texts_nil texts_single texts_append texts_of_text texts_of_tool
        frame_text_simps del: map_map split: option.splits)

lemma texts_of_messages: "frame_texts (concat (map message_frames ms)) = text_fragments ms"
  by (induction ms) (simp_all add: texts_nil texts_append texts_of_message text_fragments_def)

subsection \<open>The last chunk\<close>

text \<open>Unfolding the handler on a concrete request.\<close>

lemmas run_defs = POST_def try_block_def handle_messages_def start_def Let_def
  with_messages_def turn_def role_is_user_def replay_def on_block_def json_response_def
  fullPrompt_def conversationContext_def render_def

lemma of_type_sentinel: "frames_of_type t (xs @ [Sentinel]) = frames_of_type t xs"
  by (simp add: frames_of_type_def)

lemma of_type_stream_error:
  "frames_of_type t (xs @ [error_frame m]) =
     frames_of_type t xs @ (if t = ''error'' then [error_frame m] else [])"
  by (auto simp: frames_of_type_def frame_type_simps)

lemma texts_sentinel: "frame_texts (xs @ [Sentinel]) = frame_texts xs"
  by (simp add: frame_texts_def)

lemma texts_stream_error: "frame_texts (xs @ [error_frame m]) = frame_texts xs"
  by (simp add: frame_texts_def frame_text_simps)

lemma error_not_sentinel: "error_frame m \<noteq> Sentinel"
  by (simp add: error_frame_def)

subsection \<open>The engine is asked once\<close>

text \<open>
  \<open>POST\<close> depends on the engine only through the run it gives for the arguments of the
  request, so a statement about every run is a statement about every engine.
\<close>

lemma start_engine: "start e q mdl p = start e (replay (q (query_options e mdl p))) mdl p"
  by (simp add: start_def replay_def)

lemma handle_messages_engine:
  "handle_messages e q mdl ms =
     handle_messages e
       (replay (q (query_options e mdl
          (case fullPrompt e ms (last (filter role_is_user ms)) of Some p \<Rightarrow> p | None \<Rightarrow> []))))
       mdl ms"
proof (cases "fullPrompt e ms (last (filter role_is_user ms))")
  case None
  then show ?thesis
    by (simp add: handle_messages_def Let_def split: option.splits json.splits)
next
  case (Some p)
  with start_engine [of e q mdl p] show ?thesis
    by (simp add: handle_messages_def Let_def split: option.splits json.splits)
qed

lemma try_block_engine: "try_block e q r = try_block e (replay (q (request_args e r))) r"
proof (cases r)
  case (Inl err)
  then show ?thesis by (simp add: try_block_def)
next
  case (Inr parsed)
  show ?thesis
    unfolding try_block_def Let_def request_args_def Inr
    using handle_messages_engine
            [of e q "property parsed ''model''" "elements (property parsed ''messages'')"]
    by simp
qed

lemma POST_engine: "POST e q r = POST e (replay (q (request_args e r))) r"
  unfolding POST_def using try_block_engine [of e q r] by simp

lemma run_replay: "run e (replay u) r = u"
  by (simp add: run_def replay_def)

lemma POST_run:
  assumes "body (snd (POST e q r)) = Stream cs c"
  shows "c \<and> cs = concat (map message_frames (yielded (run e q r))) @
           [case raised (run e q r) of
              None \<Rightarrow> Sentinel | Some err \<Rightarrow> error_frame ''Stream error occurred'']"
proof -
  from assms have "body (snd (POST e (replay (run e q r)) r)) = Stream cs c"
    using POST_engine [of e q r] by (simp add: run_def)
  from POST_replay [OF this] show ?thesis .
qed

lemma POST_run_log:
  assumes "body (snd (POST e q r)) = Stream cs c" and "raised (run e q r) = Some err"
  shows "last (fst (POST e q r)) =
           stream_error_log e err (length (text_fragments (yielded (run e q r))))
             (tools_seen (tool_invocations (yielded (run e q r))))"
proof -
  have eq: "POST e q r = POST e (replay (run e q r)) r"
    using POST_engine [of e q r] by (simp add: run_def)
  from assms(1) have "body (snd (POST e (replay (run e q r)) r)) = Stream cs c"
    by (simp add: eq [symmetric])
  from POST_replay_log [OF this assms(2)] show ?thesis
    by (simp add: eq [symmetric])
qed

subsection \<open>Bytes\<close>

lemma encode_object: "encode (Frame (JObject kvs)) \<noteq> encode Sentinel"
  by simp

lemma message_frames_encoded:
  "c \<in> set (message_frames m) \<Longrightarrow> encode c \<noteq> encode Sentinel"
  by (cases m)
     (auto simp: text_delta_frame_def tool_start_frame_def tool_progress_frame_def
        done_frame_def error_frame_def simp del: encode.simps simp: encode_object)

lemma count_encoded_sentinel:
  "count_list (map encode (concat (map message_frames ms))) (encode Sentinel) = 0"
  by (auto simp: count_list_0_iff dest: message_frames_encoded simp del: encode.simps)

lemma encoded_error_not_sentinel: "encode (error_frame m) \<noteq> encode Sentinel"
  by (simp add: error_frame_def del: encode.simps add: encode_object)

lemma body_messages_required:
  \<open>JSON_stringify (JObject [(''error'', JString ''Messages array is required'')]) =
     ''{"error":"Messages array is required"}''\<close>
  by (simp add: QuoteJSONString_def escape_def)

lemma body_no_user_message:
  \<open>JSON_stringify (JObject [(''error'', JString ''No user message found'')]) =
     ''{"error":"No user message found"}''\<close>
  by (simp add: QuoteJSONString_def escape_def)

lemma body_chat_failed:
  \<open>JSON_stringify (JObject [(''error'',
       JString ''Failed to process chat request. Check server logs for details.'')]) =
     ''{"error":"Failed to process chat request. Check server logs for details."}''\<close>
  by (simp add: QuoteJSONString_def escape_def)

lemma body_research_failed:
  \<open>JSON_stringify (JObject [(''error'',
       JString ''Failed to process competitive research request. Check server logs for details.'')]) =
     ''{"error":"Failed to process competitive research request. Check server logs for details."}''\<close>
  by (simp add: QuoteJSONString_def escape_def)

subsection \<open>Joining\<close>

lemma join_Cons: "zs \<noteq> [] \<Longrightarrow> join sep (z # zs) = z @ sep @ join sep zs"
  by (cases zs) simp_all

lemma join_split: "\<exists>pre post. join sep (xs @ x # ys) = pre @ x @ post"
proof (induction xs)
  case Nil
  show ?case
  proof (cases ys)
    case Nil
    have "join sep ([] @ x # ys) = [] @ x @ []" by (simp add: Nil)
    then show ?thesis by blast
  next
    case (Cons y ys')
    have "join sep ([] @ x # ys) = [] @ x @ (sep @ join sep (y # ys'))" by (simp add: Cons)
    then show ?thesis by blast
  qed
next
  case (Cons a xs)
  then obtain pre post where "join sep (xs @ x # ys) = pre @ x @ post" by blast
  then have "join sep ((a # xs) @ x # ys) = (a @ sep @ pre) @ x @ post"
    by (simp add: join_Cons)
  then show ?case by blast
qed

subsection \<open>The prompt the engine receives\<close>

lemma start_echo:
  "enqueued (start e echo mdl p) = [text_delta_frame p, Sentinel] \<and> closed (start e echo mdl p)"
  by (simp add: start_def Let_def echo_def query_options_def text_delta_frame_def)

lemma POST_echo:
  assumes "JNull \<notin> set ms"
    and "filter role_is_user ms \<noteq> []"
    and "property (last (filter role_is_user ms)) ''content'' = Some (JString content)"
    and "fullPrompt e ms (last (filter role_is_user ms)) = Some p"
  shows "body (snd (POST e echo (with_messages ms))) = Stream [text_delta_frame p, Sentinel] True"
  using assms
  by (simp add: POST_def try_block_def handle_messages_def Let_def with_messages_def start_echo)

text \<open>What a streamed response says about the request.\<close>

lemma POST_served:
  assumes "property parsed ''messages'' = Some (JArray ms)"
    and "body (snd (POST e q (Inr parsed))) = Stream cs c"
  shows "JNull \<notin> set ms \<and> filter role_is_user ms \<noteq> [] \<and>
         (\<exists>content p.
            property (last (filter role_is_user ms)) ''content'' = Some (JString content) \<and>
            fullPrompt e ms (last (filter role_is_user ms)) = Some p \<and>
            cs = enqueued (start e q (property parsed ''model'') p) \<and>
            c = closed (start e q (property parsed ''model'') p))"
proof -
  from assms(1) have n: "parsed \<noteq> JNull" by auto
  with assms(1)
  have t: "try_block e q (Inr parsed) = handle_messages e q (property parsed ''model'') ms"
    by (simp add: try_block_def Let_def)
  show ?thesis
  proof (cases "snd (handle_messages e q (property parsed ''model'') ms)")
    case (Inl err)
    with assms(2) t show ?thesis
      by (simp add: POST_def json_response_def split: prod.splits)
  next
    case (Inr resp)
    with assms(2) t have "body resp = Stream cs c"
      by (simp add: POST_def split: prod.splits)
    from handle_messages_stream [OF Inr this] show ?thesis by blast
  qed
qed

subsection \<open>Lists of results\<close>

lemma those_append:
  "those (xs @ ys) = Some zs \<longleftrightarrow>
     (\<exists>as bs. those xs = Some as \<and> those ys = Some bs \<and> zs = as @ bs)"
  by (induction xs arbitrary: zs) (auto split: option.splits)

lemma those_Cons:
  "those (x # xs) = Some zs \<longleftrightarrow> (\<exists>a as. x = Some a \<and> those xs = Some as \<and> zs = a # as)"
  by (auto split: option.splits)

section \<open>The claims\<close>

text \<open>
  The statements about the stream are about a response of \<open>POST\<close> whose body is a
  stream, with chunks \<open>cs\<close> and closed flag \<open>c\<close>: the request \<open>r\<close> passed validation and
  the stream callback iterated over \<open>run e q r\<close>, the run the engine \<open>q\<close> gave.
\<close>

subsection \<open>C1: the closing marker\<close>

text \<open>
  C1, as stated, fails. When the iteration throws, the \<^verbatim>\<open>catch\<close> block enqueues its
  error frame and closes the stream without the closing marker: for the chat endpoint and
  a run that throws at once, the stream is the one chunk
  \<^verbatim>\<open>data: {"type":"error","message":"Stream error occurred"}\<close> and holds no
  \<^verbatim>\<open>data: [DONE]\<close>.
\<close>

theorem no_sentinel_when_upstream_throws:
  \<open>body (snd (POST Chat (replay (Upstream [] (Some (ErrorObject ''socket hang up''))))
            (with_messages [turn ''user'' ''hi'']))) =
     Stream [error_frame ''Stream error occurred''] True \<and>
   count_list [error_frame ''Stream error occurred''] Sentinel = 0 \<and>
   map encode [error_frame ''Stream error occurred''] =
     [''data: {"type":"error","message":"Stream error occurred"}'' @ [LF, LF]] \<and>
   count_list (map encode [error_frame ''Stream error occurred''])
     (''data: [DONE]'' @ [LF, LF]) = 0\<close>
  by (simp add: run_defs error_frame_def QuoteJSONString_def escape_def)

text \<open>
  C1, amended. Every streamed response is closed and not empty. When the upstream iteration
  ends without throwing, the stream holds exactly one closing marker \<^verbatim>\<open>data: [DONE]\<close>
  and it is the last chunk, after every frame. When the upstream iteration throws, the
  stream holds no closing marker and its last chunk is the error frame with the message
  \<^verbatim>\<open>Stream error occurred\<close>. The count is the same on the encoded chunks.
\<close>

theorem sentinel_closes_a_returning_run:
  assumes "body (snd (POST e q r)) = Stream cs c"
  shows "c \<and> cs \<noteq> [] \<and>
         (case raised (run e q r) of
            None \<Rightarrow>
              count_list cs Sentinel = 1 \<and> last cs = Sentinel \<and>
              count_list (map encode cs) (''data: [DONE]'' @ [LF, LF]) = 1
          | Some err \<Rightarrow>
              count_list cs Sentinel = 0 \<and> last cs = error_frame ''Stream error occurred'' \<and>
              count_list (map encode cs) (''data: [DONE]'' @ [LF, LF]) = 0)"
proof -
  from POST_run [OF assms]
  have c: c
    and cs: "cs = concat (map message_frames (yielded (run e q r))) @
                 [case raised (run e q r) of None \<Rightarrow> Sentinel
                  | Some err \<Rightarrow> error_frame ''Stream error occurred'']"
    by simp_all
  have m: "''data: [DONE]'' @ [LF, LF] = encode Sentinel"
    by simp
  have "case raised (run e q r) of
          None \<Rightarrow>
            count_list cs Sentinel = 1 \<and> last cs = Sentinel \<and>
            count_list (map encode cs) (''data: [DONE]'' @ [LF, LF]) = 1
        | Some err \<Rightarrow>
            count_list cs Sentinel = 0 \<and> last cs = error_frame ''Stream error occurred'' \<and>
            count_list (map encode cs) (''data: [DONE]'' @ [LF, LF]) = 0"
    unfolding cs m
    by (cases "raised (run e q r)")
       (simp_all add: count_sentinel_messages error_not_sentinel count_encoded_sentinel
          encoded_error_not_sentinel del: encode.simps)
  with c cs show ?thesis by simp
qed

theorem sentinel_closes_a_returning_run_witness:
  "body (snd (POST CompetitiveResearch
     (replay (Upstream [ResultMessage ''error_max_turns''] None))
     (with_messages [turn ''user'' ''hi'']))) =
   Stream [error_frame ''Query did not complete successfully'', Sentinel] True \<and>
   count_list [error_frame ''Query did not complete successfully'', Sentinel] Sentinel = 1 \<and>
   last [error_frame ''Query did not complete successfully'', Sentinel] = Sentinel"
proof -
  have h: "body (snd (POST CompetitiveResearch
     (replay (Upstream [ResultMessage ''error_max_turns''] None))
     (with_messages [turn ''user'' ''hi'']))) =
   Stream [error_frame ''Query did not complete successfully'', Sentinel] True"
    by (simp add: run_defs error_frame_def)
  from sentinel_closes_a_returning_run [OF h] h show ?thesis
    by (simp add: run_replay)
qed

subsection \<open>C2: a run that throws\<close>

text \<open>
  C2, as stated, fails in one part: the error frame is not followed by the closing marker.
  For the research endpoint and a run that yields one text fragment and throws, the stream
  is the text frame and the error frame, and nothing else.
\<close>

theorem error_frame_is_last_when_upstream_throws:
  \<open>body (snd (POST CompetitiveResearch
     (replay (Upstream
        [StreamEvent (RawEvent ''content_block_delta'' (Some (Delta ''text_delta'' ''Hel'')))]
        (Some (ErrorObject ''aborted''))))
     (with_messages [turn ''user'' ''hi'']))) =
   Stream [text_delta_frame ''Hel'', error_frame ''Stream error occurred''] True \<and>
   last [text_delta_frame ''Hel'', error_frame ''Stream error occurred''] \<noteq> Sentinel \<and>
   count_list [text_delta_frame ''Hel'', error_frame ''Stream error occurred''] Sentinel = 0\<close>
  by (simp add: run_defs error_frame_def text_delta_frame_def)

text \<open>
  C2, amended. For every request whose upstream iteration throws before any completion
  event, the stream holds exactly one \<^verbatim>\<open>error\<close> frame; it is the last chunk and no closing
  marker follows it (the stream holds none); the stream is closed; and the last telemetry
  call is the error log of the \<^verbatim>\<open>catch\<close> block, which records
  \<^verbatim>\<open>textChunksStreamed\<close> (the number of text fragments of the run) and \<^verbatim>\<open>toolsUsed\<close>
  (the tool names of the run, each once).
\<close>

theorem upstream_throw_gives_one_error_frame:
  assumes "body (snd (POST e q r)) = Stream cs c"
    and "raised (run e q r) = Some err"
    and "filter completion_success (yielded (run e q r)) = []"
    and "filter completion_failure (yielded (run e q r)) = []"
  shows "frames_of_type ''error'' cs = [error_frame ''Stream error occurred''] \<and>
         last cs = error_frame ''Stream error occurred'' \<and>
         count_list cs Sentinel = 0 \<and>
         c \<and>
         last (fst (POST e q r)) =
           stream_error_log e err (length (text_fragments (yielded (run e q r))))
             (tools_seen (tool_invocations (yielded (run e q r)))) \<and>
         distinct (tools_seen (tool_invocations (yielded (run e q r)))) \<and>
         set (tools_seen (tool_invocations (yielded (run e q r)))) =
           set (tool_invocations (yielded (run e q r)))"
proof -
  let ?ms = "yielded (run e q r)"
  from POST_run [OF assms(1)] assms(2)
  have c: c
    and cs: "cs = concat (map message_frames ?ms) @ [error_frame ''Stream error occurred'']"
    by simp_all
  have e: "frames_of_type ''error'' cs = [error_frame ''Stream error occurred'']"
    unfolding cs by (simp add: of_type_stream_error error_of_messages assms(4))
  have l: "last cs = error_frame ''Stream error occurred''"
    unfolding cs by simp
  have n: "count_list cs Sentinel = 0"
    unfolding cs by (simp add: count_sentinel_messages error_not_sentinel)
  have d: "distinct (tools_seen (tool_invocations ?ms))"
    unfolding tools_seen_def by (rule adds_distinct) simp
  have s: "set (tools_seen (tool_invocations ?ms)) = set (tool_invocations ?ms)"
    unfolding tools_seen_def by (simp add: adds_set)
  from e l n c d s POST_run_log [OF assms(1) assms(2)] show ?thesis by simp
qed

theorem upstream_throw_gives_one_error_frame_witness:
  "body (snd (POST Chat
     (replay (Upstream
        [StreamEvent (RawEvent ''content_block_delta'' (Some (Delta ''text_delta'' ''Hel''))),
         AssistantMessage (Some [ContentBlock ''tool_use'' ''WebSearch'']),
         AssistantMessage (Some [ContentBlock ''tool_use'' ''WebSearch''])]
        (Some (ErrorObject ''aborted''))))
     (with_messages [turn ''user'' ''hi'']))) =
   Stream [text_delta_frame ''Hel'', tool_start_frame ''WebSearch'', tool_start_frame ''WebSearch'',
           error_frame ''Stream error occurred''] True \<and>
   last (fst (POST Chat
     (replay (Upstream
        [StreamEvent (RawEvent ''content_block_delta'' (Some (Delta ''text_delta'' ''Hel''))),
         AssistantMessage (Some [ContentBlock ''tool_use'' ''WebSearch'']),
         AssistantMessage (Some [ContentBlock ''tool_use'' ''WebSearch''])]
        (Some (ErrorObject ''aborted''))))
     (with_messages [turn ''user'' ''hi'']))) =
   stream_error_log Chat (ErrorObject ''aborted'') 1 [''WebSearch'']"
proof -
  let ?u = "Upstream
        [StreamEvent (RawEvent ''content_block_delta'' (Some (Delta ''text_delta'' ''Hel''))),
         AssistantMessage (Some [ContentBlock ''tool_use'' ''WebSearch'']),
         AssistantMessage (Some [ContentBlock ''tool_use'' ''WebSearch''])]
        (Some (ErrorObject ''aborted''))"
  let ?r = "with_messages [turn ''user'' ''hi'']"
  have h: "body (snd (POST Chat (replay ?u) ?r)) =
   Stream [text_delta_frame ''Hel'', tool_start_frame ''WebSearch'', tool_start_frame ''WebSearch'',
           error_frame ''Stream error occurred''] True"
    by (simp add: run_defs error_frame_def text_delta_frame_def tool_start_frame_def add_def)
  have t: "raised (run Chat (replay ?u) ?r) = Some (ErrorObject ''aborted'')"
    by (simp add: run_replay)
  have s: "filter completion_success (yielded (run Chat (replay ?u) ?r)) = []"
    by (simp add: run_replay)
  have f: "filter completion_failure (yielded (run Chat (replay ?u) ?r)) = []"
    by (simp add: run_replay)
  from upstream_throw_gives_one_error_frame [OF h t s f] h show ?thesis
    by (simp add: run_replay text_fragments_def tool_invocations_def tools_seen_def add_def)
qed

subsection \<open>C3: tool invocations\<close>

text \<open>
  C3, as stated, fails: \<^verbatim>\<open>toolsUsed\<close> is never consulted before a frame is enqueued. Three
  assistant messages that each invoke \<^verbatim>\<open>WebSearch\<close> give three \<^verbatim>\<open>tool_start\<close> frames.
\<close>

theorem repeated_tool_invocation_repeats_tool_start:
  "body (snd (POST Chat
     (replay (Upstream
        [AssistantMessage (Some [ContentBlock ''tool_use'' ''WebSearch'']),
         AssistantMessage (Some [ContentBlock ''tool_use'' ''WebSearch'']),
         AssistantMessage (Some [ContentBlock ''tool_use'' ''WebSearch''])] None))
     (with_messages [turn ''user'' ''hi'']))) =
   Stream [tool_start_frame ''WebSearch'', tool_start_frame ''WebSearch'',
           tool_start_frame ''WebSearch'', Sentinel] True \<and>
   length (frames_of_type ''tool_start''
     [tool_start_frame ''WebSearch'', tool_start_frame ''WebSearch'',
      tool_start_frame ''WebSearch'', Sentinel]) = 3"
  by (simp add: run_defs tool_start_frame_def add_def frames_of_type_def)

text \<open>
  C3, amended. Every \<^verbatim>\<open>tool_use\<close> block of the run gives one \<^verbatim>\<open>tool_start\<close> frame: the
  \<^verbatim>\<open>tool_start\<close> frames of the stream are, in order, the frames of the tool invocations of
  the run, repeats included. An invocation of a name already in \<^verbatim>\<open>toolsUsed\<close> enqueues its
  frame all the same, makes its two telemetry calls all the same (the \<^verbatim>\<open>tool.used\<close>
  counter tagged with the name, and the info log with the name), and leaves
  \<^verbatim>\<open>toolsUsed\<close> and \<^verbatim>\<open>textChunksStreamed\<close> as they were.
\<close>

theorem tool_start_per_invocation:
  "(body (snd (POST e q r)) = Stream cs c \<longrightarrow>
      frames_of_type ''tool_start'' cs =
        map tool_start_frame (tool_invocations (yielded (run e q r)))) \<and>
   (n \<in> set (toolsUsed s) \<longrightarrow>
      enqueued (on_block e s (ContentBlock ''tool_use'' n)) = enqueued s @ [tool_start_frame n] \<and>
      telemetry (on_block e s (ContentBlock ''tool_use'' n)) =
        telemetry s @
        [Increment (metric e ''tool.used'') 1 [(''tool_name'', n)],
         Log LogInfo
           (case e of Chat \<Rightarrow> ''Tool execution started''
            | CompetitiveResearch \<Rightarrow> ''Tool execution started in competitive research'')
           [(''toolName'', CString n)] None] \<and>
      toolsUsed (on_block e s (ContentBlock ''tool_use'' n)) = toolsUsed s \<and>
      textChunksStreamed (on_block e s (ContentBlock ''tool_use'' n)) = textChunksStreamed s)"
proof (intro conjI impI)
  assume a: "body (snd (POST e q r)) = Stream cs c"
  from POST_run [OF a]
  have cs: "cs = concat (map message_frames (yielded (run e q r))) @
                 [case raised (run e q r) of None \<Rightarrow> Sentinel
                  | Some err \<Rightarrow> error_frame ''Stream error occurred'']"
    by simp
  show "frames_of_type ''tool_start'' cs =
          map tool_start_frame (tool_invocations (yielded (run e q r)))"
    unfolding cs
    by (cases "raised (run e q r)")
       (simp_all add: of_type_sentinel of_type_stream_error tool_start_of_messages)
next
  show "enqueued (on_block e s (ContentBlock ''tool_use'' n)) = enqueued s @ [tool_start_frame n]"
    by (simp add: on_block_enqueued)
next
  show "telemetry (on_block e s (ContentBlock ''tool_use'' n)) =
        telemetry s @
        [Increment (metric e ''tool.used'') 1 [(''tool_name'', n)],
         Log LogInfo
           (case e of Chat \<Rightarrow> ''Tool execution started''
            | CompetitiveResearch \<Rightarrow> ''Tool execution started in competitive research'')
           [(''toolName'', CString n)] None]"
    by (simp add: on_block_def)
next
  assume "n \<in> set (toolsUsed s)"
  then show "toolsUsed (on_block e s (ContentBlock ''tool_use'' n)) = toolsUsed s"
    by (simp add: on_block_tools add_present)
next
  show "textChunksStreamed (on_block e s (ContentBlock ''tool_use'' n)) = textChunksStreamed s"
    by (simp add: on_block_chunks)
qed

theorem tool_start_per_invocation_witness:
  "body (snd (POST CompetitiveResearch
     (replay (Upstream
        [AssistantMessage (Some [ContentBlock ''tool_use'' ''WebSearch'', ContentBlock ''text'' [],
                                 ContentBlock ''tool_use'' ''WebFetch'']),
         AssistantMessage (Some [ContentBlock ''tool_use'' ''WebSearch''])] None))
     (with_messages [turn ''user'' ''hi'']))) =
   Stream [tool_start_frame ''WebSearch'', tool_start_frame ''WebFetch'',
           tool_start_frame ''WebSearch'', Sentinel] True \<and>
   frames_of_type ''tool_start''
     [tool_start_frame ''WebSearch'', tool_start_frame ''WebFetch'',
      tool_start_frame ''WebSearch'', Sentinel] =
   map tool_start_frame [''WebSearch'', ''WebFetch'', ''WebSearch''] \<and>
   ''WebSearch'' \<in> set (toolsUsed
      \<lparr>toolsUsed = [''WebSearch''], textChunksStreamed = 0, enqueued = [], closed = False,
       telemetry = []\<rparr>) \<and>
   enqueued (on_block CompetitiveResearch
      \<lparr>toolsUsed = [''WebSearch''], textChunksStreamed = 0, enqueued = [], closed = False,
       telemetry = []\<rparr> (ContentBlock ''tool_use'' ''WebSearch'')) =
     [tool_start_frame ''WebSearch''] \<and>
   telemetry (on_block CompetitiveResearch
      \<lparr>toolsUsed = [''WebSearch''], textChunksStreamed = 0, enqueued = [], closed = False,
       telemetry = []\<rparr> (ContentBlock ''tool_use'' ''WebSearch'')) =
     [Increment ''competitive_research.tool.used'' 1 [(''tool_name'', ''WebSearch'')],
      Log LogInfo ''Tool execution started in competitive research''
        [(''toolName'', CString ''WebSearch'')] None] \<and>
   toolsUsed (on_block CompetitiveResearch
      \<lparr>toolsUsed = [''WebSearch''], textChunksStreamed = 0, enqueued = [], closed = False,
       telemetry = []\<rparr> (ContentBlock ''tool_use'' ''WebSearch'')) = [''WebSearch'']"
proof -
  let ?u = "Upstream
        [AssistantMessage (Some [ContentBlock ''tool_use'' ''WebSearch'', ContentBlock ''text'' [],
                                 ContentBlock ''tool_use'' ''WebFetch'']),
         AssistantMessage (Some [ContentBlock ''tool_use'' ''WebSearch''])] None"
  let ?cs = "[tool_start_frame ''WebSearch'', tool_start_frame ''WebFetch'',
           tool_start_frame ''WebSearch'', Sentinel]"
  let ?s = "\<lparr>toolsUsed = [''WebSearch''], textChunksStreamed = 0, enqueued = [], closed = False,
       telemetry = []\<rparr>"
  have h: "body (snd (POST CompetitiveResearch (replay ?u) (with_messages [turn ''user'' ''hi'']))) =
     Stream ?cs True"
    by (simp add: run_defs tool_start_frame_def add_def)
  have m: "''WebSearch'' \<in> set (toolsUsed ?s)" by simp
  from tool_start_per_invocation
         [of CompetitiveResearch "replay ?u" "with_messages [turn ''user'' ''hi'']" ?cs True
             "''WebSearch''" ?s]
       h m
  show ?thesis
    by (simp add: run_replay tool_invocations_def on_block_enqueued on_block_tools add_def
        metric_def)
qed

subsection \<open>C4: a run with one successful completion\<close>

text \<open>
  C4, as stated, fails for a run that yields its one successful completion and then
  throws: the \<^verbatim>\<open>catch\<close> block adds an error frame after the \<^verbatim>\<open>done\<close> frame and no
  closing marker.
\<close>

theorem error_frame_after_done_when_upstream_throws:
  "body (snd (POST Chat
     (replay (Upstream [ResultMessage ''success''] (Some (ErrorObject ''exited with code 1''))))
     (with_messages [turn ''user'' ''hi'']))) =
   Stream [done_frame, error_frame ''Stream error occurred''] True \<and>
   length (filter completion_success [ResultMessage ''success'']) = 1 \<and>
   filter completion_failure [ResultMessage ''success''] = [] \<and>
   frames_of_type ''error'' [done_frame, error_frame ''Stream error occurred''] =
     [error_frame ''Stream error occurred''] \<and>
   count_list [done_frame, error_frame ''Stream error occurred''] Sentinel = 0"
  by (simp add: run_defs done_frame_def error_frame_def frames_of_type_def)

text \<open>
  C4, amended. For every request whose upstream iteration ends without throwing and whose
  run holds exactly one successful completion and no failed one, the stream holds exactly
  one \<^verbatim>\<open>done\<close> frame, exactly one closing marker, which is last, and no \<^verbatim>\<open>error\<close> frame.
\<close>

theorem one_success_gives_done_and_sentinel:
  assumes "body (snd (POST e q r)) = Stream cs c"
    and "raised (run e q r) = None"
    and "length (filter completion_success (yielded (run e q r))) = 1"
    and "filter completion_failure (yielded (run e q r)) = []"
  shows "frames_of_type ''done'' cs = [done_frame] \<and>
         count_list cs Sentinel = 1 \<and>
         last cs = Sentinel \<and>
         frames_of_type ''error'' cs = []"
proof -
  from POST_run [OF assms(1)] assms(2)
  have cs: "cs = concat (map message_frames (yielded (run e q r))) @ [Sentinel]"
    by simp
  have d: "frames_of_type ''done'' cs = [done_frame]"
    unfolding cs by (simp add: of_type_sentinel done_of_messages assms(3))
  have e: "frames_of_type ''error'' cs = []"
    unfolding cs by (simp add: of_type_sentinel error_of_messages assms(4))
  have n: "count_list cs Sentinel = 1"
    unfolding cs by (simp add: count_sentinel_messages)
  from d e n show ?thesis by (simp add: cs)
qed

theorem one_success_gives_done_and_sentinel_witness:
  "body (snd (POST Chat
     (replay (Upstream
        [OtherMessage ''system'',
         StreamEvent (RawEvent ''content_block_delta'' (Some (Delta ''text_delta'' ''Hi''))),
         ResultMessage ''success''] None))
     (with_messages [turn ''user'' ''hi'']))) =
   Stream [text_delta_frame ''Hi'', done_frame, Sentinel] True \<and>
   frames_of_type ''done'' [text_delta_frame ''Hi'', done_frame, Sentinel] = [done_frame] \<and>
   count_list [text_delta_frame ''Hi'', done_frame, Sentinel] Sentinel = 1 \<and>
   frames_of_type ''error'' [text_delta_frame ''Hi'', done_frame, Sentinel] = []"
proof -
  let ?u = "Upstream
        [OtherMessage ''system'',
         StreamEvent (RawEvent ''content_block_delta'' (Some (Delta ''text_delta'' ''Hi''))),
         ResultMessage ''success''] None"
  let ?r = "with_messages [turn ''user'' ''hi'']"
  have h: "body (snd (POST Chat (replay ?u) ?r)) =
     Stream [text_delta_frame ''Hi'', done_frame, Sentinel] True"
    by (simp add: run_defs text_delta_frame_def done_frame_def)
  have t: "raised (run Chat (replay ?u) ?r) = None"
    by (simp add: run_replay)
  have s: "length (filter completion_success (yielded (run Chat (replay ?u) ?r))) = 1"
    by (simp add: run_replay)
  have f: "filter completion_failure (yielded (run Chat (replay ?u) ?r)) = []"
    by (simp add: run_replay)
  from one_success_gives_done_and_sentinel [OF h t s f] h show ?thesis by simp
qed

subsection \<open>C5: text fragments\<close>

text \<open>
  C5. For every upstream run, the \<^verbatim>\<open>text_delta\<close> frames of the stream are, in order,
  the frames of the text fragments of the run: their \<^verbatim>\<open>text\<close> fields are the fragments,
  one for one, so their concatenation is the concatenation of the fragments.
\<close>

theorem text_deltas_follow_fragments:
  assumes "body (snd (POST e q r)) = Stream cs c"
  shows "frame_texts cs = text_fragments (yielded (run e q r)) \<and>
         frames_of_type ''text_delta'' cs =
           map text_delta_frame (text_fragments (yielded (run e q r))) \<and>
         concat (frame_texts cs) = concat (text_fragments (yielded (run e q r)))"
proof -
  from POST_run [OF assms]
  have cs: "cs = concat (map message_frames (yielded (run e q r))) @
                 [case raised (run e q r) of None \<Rightarrow> Sentinel
                  | Some err \<Rightarrow> error_frame ''Stream error occurred'']"
    by simp
  have t: "frame_texts cs = text_fragments (yielded (run e q r))"
    unfolding cs
    by (cases "raised (run e q r)")
       (simp_all add: texts_sentinel texts_stream_error texts_of_messages)
  have f: "frames_of_type ''text_delta'' cs =
             map text_delta_frame (text_fragments (yielded (run e q r)))"
    unfolding cs
    by (cases "raised (run e q r)")
       (simp_all add: of_type_sentinel of_type_stream_error text_delta_of_messages)
  from t f show ?thesis by simp
qed

theorem text_deltas_follow_fragments_witness:
  "body (snd (POST Chat
     (replay (Upstream
        [StreamEvent (RawEvent ''content_block_delta'' (Some (Delta ''text_delta'' ''Hel''))),
         OtherMessage ''system'',
         StreamEvent (RawEvent ''content_block_delta'' (Some (Delta ''input_json_delta'' ''{''))),
         StreamEvent (RawEvent ''content_block_delta'' (Some (Delta ''text_delta'' ''lo''))),
         ResultMessage ''success''] None))
     (with_messages [turn ''user'' ''hi'']))) =
   Stream [text_delta_frame ''Hel'', text_delta_frame ''lo'', done_frame, Sentinel] True \<and>
   frame_texts [text_delta_frame ''Hel'', text_delta_frame ''lo'', done_frame, Sentinel] =
     [''Hel'', ''lo'']"
proof -
  have h: "body (snd (POST Chat
     (replay (Upstream
        [StreamEvent (RawEvent ''content_block_delta'' (Some (Delta ''text_delta'' ''Hel''))),
         OtherMessage ''system'',
         StreamEvent (RawEvent ''content_block_delta'' (Some (Delta ''input_json_delta'' ''{''))),
         StreamEvent (RawEvent ''content_block_delta'' (Some (Delta ''text_delta'' ''lo''))),
         ResultMessage ''success''] None))
     (with_messages [turn ''user'' ''hi'']))) =
   Stream [text_delta_frame ''Hel'', text_delta_frame ''lo'', done_frame, Sentinel] True"
    by (simp add: run_defs text_delta_frame_def done_frame_def)
  from text_deltas_follow_fragments [OF h] h show ?thesis
    by (simp add: run_replay text_fragments_def)
qed

subsection \<open>C6: validation\<close>

text \<open>
  C6, as stated, fails in its second half: the handlers read the key \<^verbatim>\<open>messages\<close>, so
  the body \<^verbatim>\<open>{"turns":[{"role":"assistant","content":"hi"}]}\<close> has no messages array and
  is answered with \<^verbatim>\<open>Messages array is required\<close>.
\<close>

theorem turns_key_is_not_read:
  \<open>snd (POST Chat (replay (Upstream [] None))
          (Inr (JObject [(''turns'', JArray [turn ''assistant'' ''hi''])]))) =
     \<lparr>status = 400, headers = [(''Content-Type'', ''application/json'')],
      body = Text ''{"error":"Messages array is required"}''\<rparr> \<and>
   ''{"error":"Messages array is required"}'' \<noteq> ''{"error":"No user message found"}''\<close>
  by (simp add: run_defs body_messages_required del: JSON_stringify.simps)

text \<open>
  C6, amended. On both endpoints the body \<^verbatim>\<open>{}\<close> is answered with status 400 and
  \<^verbatim>\<open>{"error":"Messages array is required"}\<close>, and the body
  \<^verbatim>\<open>{"messages":[{"role":"assistant","content":"hi"}]}\<close> with status 400 and
  \<^verbatim>\<open>{"error":"No user message found"}\<close>.
\<close>

theorem validation_responses:
  \<open>snd (POST e q (Inr (JObject []))) =
     \<lparr>status = 400, headers = [(''Content-Type'', ''application/json'')],
      body = Text ''{"error":"Messages array is required"}''\<rparr> \<and>
   snd (POST e q (Inr (JObject [(''messages'', JArray [turn ''assistant'' ''hi''])]))) =
     \<lparr>status = 400, headers = [(''Content-Type'', ''application/json'')],
      body = Text ''{"error":"No user message found"}''\<rparr>\<close>
  by (simp add: run_defs body_messages_required body_no_user_message del: JSON_stringify.simps)

subsection \<open>C7: the order of the prompt\<close>

text \<open>
  C7. For the messages user \<open>a\<close>, assistant \<open>b\<close>, user \<open>c\<close> the prompt is the system
  instruction, then \<^verbatim>\<open>Previous conversation:\<close>, then \<^verbatim>\<open>User: a\<close>, \<^verbatim>\<open>Assistant: b\<close> and
  \<^verbatim>\<open>User: c\<close> in this order, separated by blank lines. The prompt is a function of the
  endpoint and the messages alone, and it is what the engine receives: an engine that
  echoes its prompt puts exactly this text on the stream.
\<close>

theorem prompt_keeps_turn_order:
  "fullPrompt e [turn ''user'' a, turn ''assistant'' b, turn ''user'' c]
     (last (filter role_is_user [turn ''user'' a, turn ''assistant'' b, turn ''user'' c])) =
     Some (SYSTEM_PROMPT e @ [LF, LF] @ ''Previous conversation:'' @ [LF] @
           ''User: '' @ a @ [LF, LF] @ ''Assistant: '' @ b @ [LF, LF] @ ''User: '' @ c) \<and>
   body (snd (POST e echo (with_messages [turn ''user'' a, turn ''assistant'' b, turn ''user'' c]))) =
     Stream
       [text_delta_frame
          (SYSTEM_PROMPT e @ [LF, LF] @ ''Previous conversation:'' @ [LF] @
           ''User: '' @ a @ [LF, LF] @ ''Assistant: '' @ b @ [LF, LF] @ ''User: '' @ c),
        Sentinel] True"
  by (simp add: run_defs echo_def query_options_def text_delta_frame_def fullPrompt_def
      conversationContext_def render_def)

theorem prompt_keeps_turn_order_witness:
  "fullPrompt Chat [turn ''user'' ''A'', turn ''assistant'' ''B'', turn ''user'' ''C'']
     (last (filter role_is_user
        [turn ''user'' ''A'', turn ''assistant'' ''B'', turn ''user'' ''C''])) =
     Some (SYSTEM_PROMPT Chat @ [LF, LF] @ ''Previous conversation:'' @ [LF] @
           ''User: A'' @ [LF, LF] @ ''Assistant: B'' @ [LF, LF] @ ''User: C'')"
  using prompt_keeps_turn_order [of Chat "''A''" "''B''" "''C''"] by simp

subsection \<open>C8: a failure during setup\<close>

text \<open>
  C8, as stated, fails: the body of the 500 response is not the one the claim gives, and
  it is not the same on the two endpoints. Each handler names itself in the message.
\<close>

theorem setup_failure_bodies_differ:
  \<open>body (snd (POST Chat (replay (Upstream [] None))
      (Inl (ErrorObject ''Unexpected end of JSON input'')))) =
     Text ''{"error":"Failed to process chat request. Check server logs for details."}'' \<and>
   body (snd (POST CompetitiveResearch (replay (Upstream [] None))
      (Inl (ErrorObject ''Unexpected end of JSON input'')))) =
     Text ''{"error":"Failed to process competitive research request. Check server logs for details."}'' \<and>
   ''{"error":"Failed to process chat request. Check server logs for details."}'' \<noteq>
     ''{"error": "Failed to process request. Check server logs for details."}'' \<and>
   ''{"error":"Failed to process chat request. Check server logs for details."}'' \<noteq>
     ''{"error":"Failed to process competitive research request. Check server logs for details."}''\<close>
  by (simp add: POST_def try_block_def json_response_def body_chat_failed body_research_failed
      del: JSON_stringify.simps)

text \<open>
  C8, amended. Whenever the \<^verbatim>\<open>try\<close> block of \<open>POST\<close> throws (a body that is not JSON is
  one such case), the response has status 500 and the body of its endpoint:
  \<^verbatim>\<open>{"error":"Failed to process chat request. Check server logs for details."}\<close> for the
  chat endpoint,
  \<^verbatim>\<open>{"error":"Failed to process competitive research request. Check server logs for details."}\<close>
  for the research endpoint.
\<close>

theorem setup_failure_gives_500:
  assumes "snd (try_block e q r) = Inl err"
  shows \<open>snd (POST e q r) =
           \<lparr>status = 500, headers = [(''Content-Type'', ''application/json'')],
            body = Text
              (case e of
                 Chat \<Rightarrow>
                   ''{"error":"Failed to process chat request. Check server logs for details."}''
               | CompetitiveResearch \<Rightarrow>
                   ''{"error":"Failed to process competitive research request. Check server logs for details."}'')\<rparr>\<close>
  using assms
  by (cases "try_block e q r"; cases e)
     (simp_all add: POST_def json_response_def body_chat_failed body_research_failed
        del: JSON_stringify.simps)

theorem setup_failure_gives_500_witness:
  \<open>snd (try_block CompetitiveResearch (replay (Upstream [] None))
          (Inl (ErrorObject ''Unexpected end of JSON input''))) =
     Inl (ErrorObject ''Unexpected end of JSON input'') \<and>
   snd (POST CompetitiveResearch (replay (Upstream [] None))
          (Inl (ErrorObject ''Unexpected end of JSON input''))) =
     \<lparr>status = 500, headers = [(''Content-Type'', ''application/json'')],
      body = Text
        ''{"error":"Failed to process competitive research request. Check server logs for details."}''\<rparr>\<close>
proof -
  have h: "snd (try_block CompetitiveResearch (replay (Upstream [] None))
          (Inl (ErrorObject ''Unexpected end of JSON input''))) =
     Inl (ErrorObject ''Unexpected end of JSON input'')"
    by (simp add: try_block_def)
  from setup_failure_gives_500 [OF h] h show ?thesis by simp
qed

subsection \<open>C9: the last user message, twice\<close>

text \<open>
  C9. Take a request that is answered with a stream, whose last message has the role
  \<^verbatim>\<open>assistant\<close> and which has a user message. Then the last user message is one of the
  messages before the final one, and the transcript is the rendering of exactly those
  messages, \<^verbatim>\<open>messages.slice(0, -1)\<close>, joined by blank lines: the lines of the messages
  before the last user message, the line \<^verbatim>\<open>User: <content>\<close> of the last user message,
  and the lines of the messages after it up to the final one, which is left out. The
  prompt is the system instruction, \<^verbatim>\<open>Previous conversation:\<close>, this transcript, and
  the line \<^verbatim>\<open>User: <content>\<close> once more at its end: the content stands in the prompt
  twice. This is the prompt the engine receives: the engine that echoes its prompt puts
  exactly this text on the stream.
\<close>

theorem last_user_content_appears_twice:
  assumes "property parsed ''messages'' = Some (JArray messages)"
    and "body (snd (POST e echo (Inr parsed))) = Stream cs c"
    and "property (last messages) ''role'' = Some (JString ''assistant'')"
    and "filter role_is_user messages \<noteq> []"
    and "property (last (filter role_is_user messages)) ''content'' = Some (JString content)"
  shows "\<exists>xs ys rx ry.
           butlast messages = xs @ last (filter role_is_user messages) # ys \<and>
           those (map render xs) = Some rx \<and>
           those (map render ys) = Some ry \<and>
           render (last (filter role_is_user messages)) = Some (''User: '' @ content) \<and>
           those (map render (butlast messages)) = Some (rx @ (''User: '' @ content) # ry) \<and>
           conversationContext messages =
             Some (join [LF, LF] (rx @ (''User: '' @ content) # ry)) \<and>
           (\<exists>pre post.
              join [LF, LF] (rx @ (''User: '' @ content) # ry) = pre @ ''User: '' @ content @ post) \<and>
           fullPrompt e messages (last (filter role_is_user messages)) =
             Some (SYSTEM_PROMPT e @ [LF, LF] @ ''Previous conversation:'' @ [LF] @
                   join [LF, LF] (rx @ (''User: '' @ content) # ry) @
                   [LF, LF] @ ''User: '' @ content) \<and>
           cs = [text_delta_frame
                   (SYSTEM_PROMPT e @ [LF, LF] @ ''Previous conversation:'' @ [LF] @
                    join [LF, LF] (rx @ (''User: '' @ content) # ry) @
                    [LF, LF] @ ''User: '' @ content),
                 Sentinel]"
proof -
  let ?u = "last (filter role_is_user messages)"
  let ?line = "''User: '' @ content"
  from POST_served [OF assms(1) assms(2)] obtain p
    where p: "fullPrompt e messages ?u = Some p"
      and cs: "cs = enqueued (start e echo (property parsed ''model'') p)"
    by blast
  from cs have cs': "cs = [text_delta_frame p, Sentinel]"
    by (simp add: start_echo)
  from assms(3) have nl: "\<not> role_is_user (last messages)"
    by (simp add: role_is_user_def)
  from assms(4) have "?u \<in> set (filter role_is_user messages)"
    by (rule last_in_set)
  then have um: "?u \<in> set messages" and uu: "role_is_user ?u" by simp_all
  from um have ne: "messages \<noteq> []" by auto
  then have "messages = butlast messages @ [last messages]" by simp
  then have "set messages = set (butlast messages) \<union> {last messages}"
    by (metis empty_set list.simps(15) set_append)
  with um nl uu have ub: "?u \<in> set (butlast messages)" by auto
  from uu assms(5) have r: "render ?u = Some ?line"
    by (simp add: render_def)
  from ub obtain xs ys where d: "butlast messages = xs @ ?u # ys"
    by (auto simp: in_set_conv_decomp)
  from p obtain history where ctx: "conversationContext messages = Some history"
    by (auto simp: fullPrompt_def split: option.splits)
  then obtain lines where l: "those (map render (butlast messages)) = Some lines"
    and j: "history = join [LF, LF] lines"
    by (auto simp: conversationContext_def)
  from l d have "those (map render xs @ render ?u # map render ys) = Some lines"
    by simp
  then obtain rx rest where rx: "those (map render xs) = Some rx"
    and rest: "those (render ?u # map render ys) = Some rest" and l1: "lines = rx @ rest"
    unfolding those_append by blast
  from rest r obtain ry where ry: "those (map render ys) = Some ry" and l2: "rest = ?line # ry"
    unfolding those_Cons by auto
  from l1 l2 have lines: "lines = rx @ ?line # ry" by simp
  from join_split [of "[LF, LF]" rx ?line ry]
  obtain pre post where s: "join [LF, LF] (rx @ ?line # ry) = pre @ ?line @ post"
    by blast
  then have "join [LF, LF] (rx @ ?line # ry) \<noteq> []" by simp
  with p ctx j lines assms(5)
  have pe: "p = SYSTEM_PROMPT e @ [LF, LF] @ ''Previous conversation:'' @ [LF] @
               join [LF, LF] (rx @ ?line # ry) @ [LF, LF] @ ''User: '' @ content"
    by (simp add: fullPrompt_def)
  have c1: "those (map render (butlast messages)) = Some (rx @ ?line # ry)"
    using l lines by simp
  have c2: "conversationContext messages = Some (join [LF, LF] (rx @ ?line # ry))"
    using ctx j lines by simp
  have c3: "\<exists>pre post. join [LF, LF] (rx @ ?line # ry) = pre @ ''User: '' @ content @ post"
    using s by auto
  have c4: "fullPrompt e messages ?u =
             Some (SYSTEM_PROMPT e @ [LF, LF] @ ''Previous conversation:'' @ [LF] @
                   join [LF, LF] (rx @ ?line # ry) @ [LF, LF] @ ''User: '' @ content)"
    using p pe by simp
  have c5: "cs = [text_delta_frame
                   (SYSTEM_PROMPT e @ [LF, LF] @ ''Previous conversation:'' @ [LF] @
                    join [LF, LF] (rx @ ?line # ry) @ [LF, LF] @ ''User: '' @ content),
                 Sentinel]"
    using cs' pe by simp
  from d rx ry r c1 c2 c3 c4 c5 show ?thesis by blast
qed

theorem last_user_content_appears_twice_witness:
  "body (snd (POST Chat echo
     (with_messages [turn ''assistant'' ''Z'', turn ''user'' ''A'', turn ''assistant'' ''B'']))) =
     Stream
       [text_delta_frame
          (SYSTEM_PROMPT Chat @ [LF, LF] @ ''Previous conversation:'' @ [LF] @
           ''Assistant: Z'' @ [LF, LF] @ ''User: A'' @ [LF, LF] @ ''User: A''),
        Sentinel] True \<and>
   last (filter role_is_user [turn ''assistant'' ''Z'', turn ''user'' ''A'', turn ''assistant'' ''B'']) =
     turn ''user'' ''A'' \<and>
   (\<exists>xs ys rx ry.
      butlast [turn ''assistant'' ''Z'', turn ''user'' ''A'', turn ''assistant'' ''B''] =
        xs @ turn ''user'' ''A'' # ys \<and>
      those (map render xs) = Some rx \<and>
      those (map render ys) = Some ry \<and>
      conversationContext [turn ''assistant'' ''Z'', turn ''user'' ''A'', turn ''assistant'' ''B''] =
        Some (join [LF, LF] (rx @ ''User: A'' # ry)) \<and>
      fullPrompt Chat [turn ''assistant'' ''Z'', turn ''user'' ''A'', turn ''assistant'' ''B'']
          (turn ''user'' ''A'') =
        Some (SYSTEM_PROMPT Chat @ [LF, LF] @ ''Previous conversation:'' @ [LF] @
              join [LF, LF] (rx @ ''User: A'' # ry) @ [LF, LF] @ ''User: A''))"
proof -
  let ?ms = "[turn ''assistant'' ''Z'', turn ''user'' ''A'', turn ''assistant'' ''B'']"
  let ?p = "SYSTEM_PROMPT Chat @ [LF, LF] @ ''Previous conversation:'' @ [LF] @
           ''Assistant: Z'' @ [LF, LF] @ ''User: A'' @ [LF, LF] @ ''User: A''"
  have m: "property (JObject [(''messages'', JArray ?ms)]) ''messages'' = Some (JArray ?ms)"
    by simp
  have h: "body (snd (POST Chat echo (Inr (JObject [(''messages'', JArray ?ms)])))) =
             Stream [text_delta_frame ?p, Sentinel] True"
    by (simp add: run_defs echo_def query_options_def text_delta_frame_def)
  have b: "property (last ?ms) ''role'' = Some (JString ''assistant'')"
    by (simp add: turn_def)
  have l: "last (filter role_is_user ?ms) = turn ''user'' ''A''"
    by (simp add: turn_def role_is_user_def)
  have f: "filter role_is_user ?ms \<noteq> []"
    by (simp add: turn_def role_is_user_def)
  have d: "property (last (filter role_is_user ?ms)) ''content'' = Some (JString ''A'')"
    unfolding l by (simp add: turn_def)
  note t = last_user_content_appears_twice [OF m h b f d, unfolded l]
  have h': "body (snd (POST Chat echo (with_messages ?ms))) = Stream [text_delta_frame ?p, Sentinel] True"
    using h by (simp add: with_messages_def)
  from t have "\<exists>xs ys rx ry.
      butlast ?ms = xs @ turn ''user'' ''A'' # ys \<and>
      those (map render xs) = Some rx \<and>
      those (map render ys) = Some ry \<and>
      conversationContext ?ms = Some (join [LF, LF] (rx @ ''User: A'' # ry)) \<and>
      fullPrompt Chat ?ms (turn ''user'' ''A'') =
        Some (SYSTEM_PROMPT Chat @ [LF, LF] @ ''Previous conversation:'' @ [LF] @
              join [LF, LF] (rx @ ''User: A'' # ry) @ [LF, LF] @ ''User: A'')"
    by (elim exE conjE) (intro exI conjI, assumption+, simp, simp)
  with h' l show ?thesis by simp
qed

subsection \<open>C10: an empty messages array\<close>

text \<open>
  C10. A body whose \<^verbatim>\<open>messages\<close> is the empty array passes the array check (the array is
  truthy and is an array) and fails the check for a user message: the response has status
  400 and the body \<^verbatim>\<open>{"error":"No user message found"}\<close>.
\<close>

theorem empty_messages_has_no_user_message:
  assumes "property parsed ''messages'' = Some (JArray [])"
  shows \<open>truthy (property parsed ''messages'') \<and> isArray (property parsed ''messages'') \<and>
         snd (POST e q (Inr parsed)) =
           \<lparr>status = 400, headers = [(''Content-Type'', ''application/json'')],
            body = Text ''{"error":"No user message found"}''\<rparr>\<close>
proof -
  from assms have "parsed \<noteq> JNull" by auto
  with assms show ?thesis
    by (simp add: POST_def try_block_def handle_messages_def Let_def json_response_def
        body_no_user_message del: JSON_stringify.simps)
qed

theorem empty_messages_has_no_user_message_witness:
  \<open>property (JObject [(''messages'', JArray [])]) ''messages'' = Some (JArray []) \<and>
   snd (POST Chat (replay (Upstream [] None)) (Inr (JObject [(''messages'', JArray [])]))) =
     \<lparr>status = 400, headers = [(''Content-Type'', ''application/json'')],
      body = Text ''{"error":"No user message found"}''\<rparr>\<close>
proof -
  have h: "property (JObject [(''messages'', JArray [])]) ''messages'' = Some (JArray [])"
    by simp
  from empty_messages_has_no_user_message [OF h] h show ?thesis by simp
qed

end
